theory Spec2Isabelle
  imports Complex_Main "HOL-Library.Word"
begin

section \<open>Python strings and numbers\<close>

text \<open>
  Python \<open>str\<close> values are modelled as HOL strings holding the UTF-8 bytes of the text;
  Python \<open>int\<close> is \<open>int\<close>.  \<open>str_nat\<close> and \<open>str_int\<close> are \<open>str()\<close> on integers, as
  the f-strings of the sources use it.
\<close>

definition digit_char :: "nat \<Rightarrow> char" where
  "digit_char n = ''0123456789abcdef'' ! (n mod 16)"

fun str_nat :: "nat \<Rightarrow> string" where
  "str_nat n = (if n < 10 then [digit_char n] else str_nat (n div 10) @ [digit_char (n mod 10)])"

declare str_nat.simps [simp del]

definition str_int :: "int \<Rightarrow> string" where
  "str_int i = (if i < 0 then CHR ''-'' # str_nat (nat (- i)) else str_nat (nat i))"

text \<open>
  The value kinds that occur in the template catalog, in the JSON bodies and in the JSON
  columns; a dictionary keeps its items in insertion order.
\<close>

datatype jv = JStr string | JInt int | JList "jv list" | JDict "(string \<times> jv) list"

datatype py_error = IndexError | IntegrityError | OperationalError string

section \<open>The outside world of the HTTP clients\<close>

text \<open>
  \<open>requests.post\<close> either returns a response (status code and body text) or raises.  The
  exception classes are the ones the sources distinguish in their \<open>except\<close> clauses; the
  string is \<open>str(e)\<close>.
\<close>

datatype post_outcome =
    Response int string
  | RaisedTimeout string
  | RaisedConnectionError string
  | RaisedRequestException string
  | RaisedException string

text \<open>
  The world a retry loop runs in: \<open>responses w k\<close> is what the \<open>k\<close>-th POST of the process
  meets (any function, so any sequence of responses, timeouts and errors), \<open>posted\<close> logs the
  URL and JSON body of every POST so far, and \<open>slept\<close> logs the arguments of \<open>time.sleep\<close>
  in order.
\<close>

record world =
  responses :: "nat \<Rightarrow> post_outcome"
  posted :: "(string \<times> jv) list"
  slept :: "nat list"

definition requests_post ::
  "string \<Rightarrow> jv \<Rightarrow> 'a world_scheme \<Rightarrow> post_outcome \<times> 'a world_scheme" where
  "requests_post url payload w =
     (responses w (length (posted w)), w\<lparr>posted := posted w @ [(url, payload)]\<rparr>)"

definition time_sleep :: "nat \<Rightarrow> 'a world_scheme \<Rightarrow> 'a world_scheme" where
  "time_sleep delay w = w\<lparr>slept := slept w @ [delay]\<rparr>"

section \<open>evaluator.py: the Result Notifier\<close>

record notifier =
  timeout :: nat
  max_retries :: nat
  base_delay :: nat

text \<open>\<open>EvaluationNotifier.__init__\<close>\<close>

definition EvaluationNotifier :: notifier where
  "EvaluationNotifier = \<lparr>timeout = 30, max_retries = 7, base_delay = 1\<rparr>"

text \<open>
  The dictionary \<open>notify\<close> returns; a key the source leaves out is \<open>None\<close>.
\<close>

record notify_result =
  success :: bool
  status_code :: "int option"
  response_body :: "string option"
  error :: "string option"
  attempts :: nat

text \<open>
  The body of \<open>for attempt in range(self.max_retries + 1)\<close>, as recursion over the list of
  attempt numbers still to run; the empty list is the fall-through after the loop.
\<close>

fun notify_attempts ::
  "notifier \<Rightarrow> string \<Rightarrow> jv \<Rightarrow> nat list \<Rightarrow> 'a world_scheme \<Rightarrow> notify_result \<times> 'a world_scheme" where
  "notify_attempts self evaluation_url payload [] w =
     (\<lparr>success = False, status_code = None, response_body = None,
       error = Some ''Failed after all retry attempts'', attempts = max_retries self + 1\<rparr>, w)"
| "notify_attempts self evaluation_url payload (attempt # rest) w =
     (case requests_post evaluation_url payload w of
        (Response code body, w1) \<Rightarrow>
          if code = 200 then
            (\<lparr>success = True, status_code = Some 200, response_body = Some body,
              error = None, attempts = attempt + 1\<rparr>, w1)
          else
            let error_msg = ''HTTP '' @ str_int code @ '': '' @ take 200 body in
            if attempt \<ge> max_retries self then
              (\<lparr>success = False, status_code = Some code, response_body = None,
                error = Some error_msg, attempts = attempt + 1\<rparr>, w1)
            else
              notify_attempts self evaluation_url payload rest
                (time_sleep (base_delay self * 2 ^ attempt) w1)
      | (RaisedTimeout e, w1) \<Rightarrow>
          if attempt \<ge> max_retries self then
            (\<lparr>success = False, status_code = None, response_body = None,
              error = Some ''Request timed out after all retries'', attempts = attempt + 1\<rparr>, w1)
          else
            notify_attempts self evaluation_url payload rest
              (time_sleep (base_delay self * 2 ^ attempt) w1)
      | (RaisedConnectionError e, w1) \<Rightarrow>
          if attempt \<ge> max_retries self then
            (\<lparr>success = False, status_code = None, response_body = None,
              error = Some (''Connection error: '' @ e), attempts = attempt + 1\<rparr>, w1)
          else
            notify_attempts self evaluation_url payload rest
              (time_sleep (base_delay self * 2 ^ attempt) w1)
      | (RaisedRequestException e, w1) \<Rightarrow>
          if attempt \<ge> max_retries self then
            (\<lparr>success = False, status_code = None, response_body = None,
              error = Some e, attempts = attempt + 1\<rparr>, w1)
          else
            notify_attempts self evaluation_url payload rest
              (time_sleep (base_delay self * 2 ^ attempt) w1)
      | (RaisedException e, w1) \<Rightarrow>
          if attempt \<ge> max_retries self then
            (\<lparr>success = False, status_code = None, response_body = None,
              error = Some (''Unexpected error: '' @ e), attempts = attempt + 1\<rparr>, w1)
          else
            notify_attempts self evaluation_url payload rest
              (time_sleep (base_delay self * 2 ^ attempt) w1))"

text \<open>
  \<open>EvaluationNotifier.notify\<close>: the payload dictionary it builds, and the method.
\<close>

definition notify_payload ::
  "string \<Rightarrow> string \<Rightarrow> string \<Rightarrow> string \<Rightarrow> string \<Rightarrow> string \<Rightarrow> int \<Rightarrow> jv" where
  "notify_payload repo_url commit_sha pages_url nonce email task round_num =
     JDict [(''email'', JStr email), (''task'', JStr task), (''round'', JInt round_num),
            (''nonce'', JStr nonce), (''repo_url'', JStr repo_url),
            (''commit_sha'', JStr commit_sha), (''pages_url'', JStr pages_url)]"

definition notify ::
  "notifier \<Rightarrow> string \<Rightarrow> string \<Rightarrow> string \<Rightarrow> string \<Rightarrow> string \<Rightarrow> string \<Rightarrow> string \<Rightarrow> int \<Rightarrow>
   'a world_scheme \<Rightarrow> notify_result \<times> 'a world_scheme" where
  "notify self evaluation_url repo_url commit_sha pages_url nonce email task round_num w =
     notify_attempts self evaluation_url
       (notify_payload repo_url commit_sha pages_url nonce email task round_num)
       [0..<max_retries self + 1] w"

section \<open>More of Python's built-ins\<close>

text \<open>\<open>sep.join(parts)\<close>\<close>

fun str_join :: "string \<Rightarrow> string list \<Rightarrow> string" where
  "str_join sep [] = []"
| "str_join sep [p] = p"
| "str_join sep (p # q # ps) = p @ sep @ str_join sep (q # ps)"

text \<open>\<open>s.split(sep)\<close> for a separator of one character.\<close>

fun str_split :: "char \<Rightarrow> string \<Rightarrow> string list" where
  "str_split sep [] = [[]]"
| "str_split sep (c # cs) =
     (if c = sep then [] # str_split sep cs
      else (case str_split sep cs of
              [] \<Rightarrow> [[c]]
            | p # ps \<Rightarrow> (c # p) # ps))"

text \<open>
  \<open>s.replace(old, new)\<close>: every non-overlapping occurrence, scanning from the left; with
  an empty \<open>old\<close> Python puts \<open>new\<close> before every character and at the end.
\<close>

function str_replace :: "string \<Rightarrow> string \<Rightarrow> string \<Rightarrow> string" where
  "str_replace old new s =
     (if old = [] then new @ concat (map (\<lambda>c. c # new) s)
      else if s = [] then []
      else if take (length old) s = old then new @ str_replace old new (drop (length old) s)
      else hd s # str_replace old new (tl s))"
  by pat_completeness auto
termination
  by (relation "measure (\<lambda>(old, new, s). length s)") auto

declare str_replace.simps [simp del]

text \<open>
  \<open>repr\<close> of a string: double quotes when the text has a single quote and no double quote,
  single quotes otherwise; backslash, the quote in use and control characters are escaped.
  Bytes from 0x80 on are kept, which is what Python does for printable characters.
\<close>

definition repr_char :: "char \<Rightarrow> char \<Rightarrow> string" where
  "repr_char q c =
     (if c = CHR 0x5C then [CHR 0x5C, CHR 0x5C]
      else if c = q then [CHR 0x5C, q]
      else if c = CHR 0x0A then [CHR 0x5C, CHR ''n'']
      else if c = CHR 0x0D then [CHR 0x5C, CHR ''r'']
      else if c = CHR 0x09 then [CHR 0x5C, CHR ''t'']
      else if of_char c < (32 :: nat) \<or> c = CHR 0x7F then
        [CHR 0x5C, CHR ''x'', digit_char (of_char c div 16), digit_char (of_char c mod 16)]
      else [c])"

definition repr_str :: "string \<Rightarrow> string" where
  "repr_str s =
     (let q = (if CHR 0x27 \<in> set s \<and> CHR 0x22 \<notin> set s then CHR 0x22 else CHR 0x27)
      in q # concat (map (repr_char q) s) @ [q])"

text \<open>\<open>repr\<close> of a value: lists in brackets, dictionaries in braces, in insertion order.\<close>

fun py_repr :: "jv \<Rightarrow> string"
  and py_repr_list :: "jv list \<Rightarrow> string list"
  and py_repr_items :: "(string \<times> jv) list \<Rightarrow> string list" where
  "py_repr (JStr s) = repr_str s"
| "py_repr (JInt i) = str_int i"
| "py_repr (JList xs) = ''['' @ str_join '', '' (py_repr_list xs) @ '']''"
| "py_repr (JDict kvs) = ''{'' @ str_join '', '' (py_repr_items kvs) @ ''}''"
| "py_repr_list [] = []"
| "py_repr_list (x # xs) = py_repr x # py_repr_list xs"
| "py_repr_items [] = []"
| "py_repr_items ((k, v) # kvs) = (repr_str k @ '': '' @ py_repr v) # py_repr_items kvs"

text \<open>\<open>str(value)\<close>: a string is itself, everything else prints as its \<open>repr\<close>.\<close>

definition py_str :: "jv \<Rightarrow> string" where
  "py_str v = (case v of JStr s \<Rightarrow> s | _ \<Rightarrow> py_repr v)"

text \<open>
  The library functions the generator calls, as parameters: the MD5 hex digest and the
  SHA-256 digest of a byte string, \<open>random.seed\<close> of a string (the generator state it
  installs) and the draw of a number below \<open>n\<close> that \<open>random.choice\<close> makes.
\<close>

record 'g pylib =
  md5_hexdigest :: "string \<Rightarrow> string"
  sha256 :: "string \<Rightarrow> 256 word"
  random_seed :: "string \<Rightarrow> 'g"
  randbelow :: "'g \<Rightarrow> nat \<Rightarrow> nat \<times> 'g"

text \<open>\<open>hexdigest()\<close> of a 32-byte digest: 64 lower-case hexadecimal digits, high nibble first.\<close>

definition hexdigest :: "256 word \<Rightarrow> string" where
  "hexdigest h = map (\<lambda>i. digit_char (unat (drop_bit (4 * (63 - i)) h) mod 16)) [0..<64]"

text \<open>\<open>random.choice(seq)\<close> on the generator state \<open>g\<close>: \<open>seq[randbelow(len(seq))]\<close>.\<close>

definition random_choice :: "'g pylib \<Rightarrow> 'a list \<Rightarrow> 'g \<Rightarrow> (py_error + 'a) \<times> 'g" where
  "random_choice L seq g =
     (if seq = [] then (Inl IndexError, g)
      else let (i, g') = randbelow L g (length seq)
           in if i < length seq then (Inr (seq ! i), g') else (Inl IndexError, g'))"

section \<open>task\_templates.py: the template catalog and the Task Generator\<close>

text \<open>
  A round's configuration dictionary.  Every configuration has the key \<open>brief\<close>; the keys
  \<open>params\<close>, \<open>attachments\<close> and \<open>checks\<close> are \<open>None\<close> when the dictionary lacks them.
\<close>

record config =
  cfg_brief :: string
  cfg_params :: "(string \<times> jv list) list option"
  cfg_attachments :: "jv list option"
  cfg_checks :: "jv list option"

record TaskTemplate =
  tpl_id :: string
  tpl_name :: string
  tpl_round1 :: config
  tpl_round2 :: config

record task_content =
  tc_brief :: string
  tc_attachments :: "jv list"
  tc_checks :: "jv list"

text \<open>
  The loop \<open>for key, options in config['params'].items()\<close> of \<open>TaskTemplate.generate\<close>,
  threading the brief and the generator state.
\<close>

fun parametrize :: "'g pylib \<Rightarrow> (string \<times> jv list) list \<Rightarrow> string \<Rightarrow> 'g \<Rightarrow> (py_error + string) \<times> 'g" where
  "parametrize L [] brief g = (Inr brief, g)"
| "parametrize L ((key, options) # rest) brief g =
     (case random_choice L options g of
        (Inl e, g') \<Rightarrow> (Inl e, g')
      | (Inr v, g') \<Rightarrow>
          parametrize L rest (str_replace (''{'' @ key @ ''}'') (py_str v) brief) g')"

text \<open>
  \<open>TaskTemplate.generate\<close>.  The last argument is the state of the module-level generator
  of \<open>random\<close> when the call starts; \<open>random.seed\<close> replaces it.
\<close>

definition generate ::
  "'g pylib \<Rightarrow> TaskTemplate \<Rightarrow> int \<Rightarrow> string \<Rightarrow> string \<Rightarrow> 'g \<Rightarrow> (py_error + task_content) \<times> 'g" where
  "generate L self rnd email timestamp g =
     (let seed = email @ ''-'' @ timestamp;
          g1 = random_seed L (md5_hexdigest L seed);
          config = (if rnd = 1 then tpl_round1 self else tpl_round2 self);
          brief = cfg_brief config
      in case (case cfg_params config of
                 None \<Rightarrow> (Inr brief, g1)
               | Some params \<Rightarrow> parametrize L params brief g1) of
           (Inl e, g2) \<Rightarrow> (Inl e, g2)
         | (Inr brief', g2) \<Rightarrow>
             (Inr \<lparr>tc_brief = brief',
                   tc_attachments = (case cfg_attachments config of None \<Rightarrow> [] | Some a \<Rightarrow> a),
                   tc_checks = (case cfg_checks config of None \<Rightarrow> [] | Some c \<Rightarrow> c)\<rparr>, g2))"

text \<open>
  The catalog \<open>TEMPLATES\<close>, in the order of the dictionary display.  Two check
  dictionaries of the source write the key \<open>type\<close> twice; a dictionary display keeps the
  last value, which is what stands here.
\<close>

definition template_image_viewer :: TaskTemplate where
  "template_image_viewer =
     \<lparr>tpl_id = ''image-viewer'', tpl_name = ''Image Viewer'',
      tpl_round1 =
       \<lparr>cfg_brief =
           ''Create a simple image viewer web application with the following features:\<newline>- Display {num_images} images in a grid layout\<newline>- Each image should be {size}px in size\<newline>- Clicking an image should show it in a modal/lightbox view\<newline>- Include next/previous buttons in the lightbox\<newline>- Use the provided image attachments\<newline>- Make it responsive and visually appealing\<newline>- Background color: {bg_color}'',
        cfg_params =
           Some [(''num_images'', [JInt 3, JInt 4, JInt 5, JInt 6]),
           (''size'', [JInt 150, JInt 200, JInt 250]),
           (''bg_color'', [JStr ''#f0f0f0'', JStr ''#ffffff'', JStr ''#e8e8e8'', JStr ''#fafafa''])],
        cfg_attachments =
           Some [JDict [(''name'', JStr ''image1.jpg''), (''type'', JStr ''image/jpeg''), (''url'', JStr ''https://picsum.photos/400/300?random=1'')],
           JDict [(''name'', JStr ''image2.jpg''), (''type'', JStr ''image/jpeg''), (''url'', JStr ''https://picsum.photos/400/300?random=2'')],
           JDict [(''name'', JStr ''image3.jpg''), (''type'', JStr ''image/jpeg''), (''url'', JStr ''https://picsum.photos/400/300?random=3'')],
           JDict [(''name'', JStr ''image4.jpg''), (''type'', JStr ''image/jpeg''), (''url'', JStr ''https://picsum.photos/400/300?random=4'')]],
        cfg_checks =
           Some [JDict [(''type'', JStr ''element_exists''), (''selector'', JStr ''img''), (''min_count'', JInt 3)],
           JDict [(''type'', JStr ''element_exists''), (''selector'', JStr ''.modal, .lightbox, [data-lightbox]'')],
           JDict [(''type'', JStr ''click_interaction''), (''selector'', JStr ''img''), (''result'', JStr ''modal_opens'')],
           JDict [(''type'', JStr ''element_exists''), (''selector'', JStr ''button, .nav, .prev, .next'')],
           JDict [(''type'', JStr ''responsive_check''), (''breakpoints'', JList [JInt 768, JInt 1024])]]\<rparr>,
      tpl_round2 =
       \<lparr>cfg_brief =
           ''Enhance your image viewer with these additional features:\<newline>- Add support for SVG images\<newline>- Implement zoom in/out functionality (buttons or mouse wheel)\<newline>- Add pan/drag capability when zoomed in\<newline>- Include a thumbnail strip at the bottom\<newline>- Add keyboard navigation (arrow keys)\<newline>- Add {animation_type} transition animations\<newline>- Include an image counter (e.g., \"3 / 6\")'',
        cfg_params =
           Some [(''animation_type'', [JStr ''fade'', JStr ''slide'', JStr ''zoom'', JStr ''flip''])],
        cfg_attachments =
           Some [JDict [(''name'', JStr ''icon.svg''), (''type'', JStr ''image/svg+xml''), (''content'', JStr ''<svg><circle cx=\"50\" cy=\"50\" r=\"40\" fill=\"blue\"/></svg>'')]],
        cfg_checks =
           Some [JDict [(''type'', JStr ''element_exists''), (''selector'', JStr ''svg, [src$=\".svg\"]'')],
           JDict [(''type'', JStr ''element_exists''), (''selector'', JStr ''[class*=\"zoom\"], button[title*=\"zoom\"]''), (''min_count'', JInt 2)],
           JDict [(''type'', JStr ''element_exists''), (''selector'', JStr ''.thumbnails, [class*=\"thumb\"]'')],
           JDict [(''type'', JStr ''element_exists''), (''selector'', JStr ''.counter, [class*=\"count\"]'')],
           JDict [(''type'', JStr ''keyboard_event''), (''key'', JStr ''ArrowRight''), (''result'', JStr ''image_changes'')],
           JDict [(''type'', JStr ''mouse_event''), (''action'', JStr ''wheel''), (''result'', JStr ''zoom_changes'')],
           JDict [(''type'', JStr ''animation_check''), (''selector'', JStr ''.modal img'')]]\<rparr>\<rparr>"

definition template_calculator :: TaskTemplate where
  "template_calculator =
     \<lparr>tpl_id = ''calculator'', tpl_name = ''Calculator'',
      tpl_round1 =
       \<lparr>cfg_brief =
           ''Create a calculator web application with:\<newline>- Basic operations: addition, subtraction, multiplication, division\<newline>- Display showing {display_digits} digits\<newline>- Number buttons (0-9) and operation buttons\<newline>- Clear (C) and equals (=) buttons\<newline>- {layout} button layout\<newline>- Error handling for division by zero\<newline>- Visual feedback on button clicks'',
        cfg_params =
           Some [(''display_digits'', [JInt 8, JInt 10, JInt 12]),
           (''layout'', [JStr ''grid'', JStr ''vertical'', JStr ''compact''])],
        cfg_attachments =
           None,
        cfg_checks =
           Some [JDict [(''type'', JStr ''element_exists''), (''selector'', JStr ''button''), (''min_count'', JInt 15)],
           JDict [(''type'', JStr ''element_exists''), (''selector'', JStr ''input[type=\"text\"], .display, #display'')],
           JDict [(''type'', JStr ''click_sequence''), (''buttons'', JList [JStr ''5'', JStr ''+'', JStr ''3'', JStr ''='']), (''result'', JStr ''8'')],
           JDict [(''type'', JStr ''click_sequence''), (''buttons'', JList [JStr ''1'', JStr ''0'', JStr ''/'', JStr ''2'', JStr ''='']), (''result'', JStr ''5'')],
           JDict [(''type'', JStr ''click_sequence''), (''buttons'', JList [JStr ''5'', JStr ''/'', JStr ''0'', JStr ''='']), (''result'', JStr ''Error|Infinity|NaN'')],
           JDict [(''type'', JStr ''button_exists''), (''text'', JList [JStr ''C'', JStr ''Clear'', JStr ''AC''])]]\<rparr>,
      tpl_round2 =
       \<lparr>cfg_brief =
           ''Add advanced features to your calculator:\<newline>- Scientific functions: sin, cos, tan, sqrt, power\<newline>- Memory functions (M+, M-, MR, MC)\<newline>- Calculation history showing last {history_count} calculations\<newline>- Keyboard input support\<newline>- {feature} mode toggle\<newline>- Percentage calculation\<newline>- Parentheses support for complex expressions'',
        cfg_params =
           Some [(''history_count'', [JInt 5, JInt 10, JInt 15]),
           (''feature'', [JStr ''dark'', JStr ''scientific'', JStr ''programmer''])],
        cfg_attachments =
           None,
        cfg_checks =
           Some [JDict [(''type'', JStr ''element_exists''), (''selector'', JStr ''button''), (''min_count'', JInt 25)],
           JDict [(''type'', JStr ''button_exists''), (''text'', JList [JStr ''sin'', JStr ''cos'', JStr ''tan'', JStr ''sqrt''])],
           JDict [(''type'', JStr ''button_exists''), (''text'', JList [JStr ''M+'', JStr ''M-'', JStr ''MR'', JStr ''MC''])],
           JDict [(''type'', JStr ''element_exists''), (''selector'', JStr ''.history, [class*=\"history\"]'')],
           JDict [(''type'', JStr ''keyboard_input''), (''keys'', JStr ''2*3''), (''result'', JStr ''6'')],
           JDict [(''type'', JStr ''click_sequence''), (''buttons'', JList [JStr ''5'', JStr ''0'', JStr ''%'']), (''result'', JStr ''0.5|50'')],
           JDict [(''type'', JStr ''parentheses_check''), (''expression'', JStr ''(2+3)*4''), (''result'', JStr ''20'')]]\<rparr>\<rparr>"

definition template_todo_list :: TaskTemplate where
  "template_todo_list =
     \<lparr>tpl_id = ''todo-list'', tpl_name = ''Todo List'',
      tpl_round1 =
       \<lparr>cfg_brief =
           ''Create a todo list application with:\<newline>- Input field to add new tasks\<newline>- List displaying all tasks\<newline>- Checkbox to mark tasks as complete\<newline>- Delete button for each task\<newline>- Show {counter_type} counter\<newline>- {storage} storage to persist tasks\<newline>- Completed tasks should have {completed_style}\<newline>- Add button with visual feedback'',
        cfg_params =
           Some [(''counter_type'', [JStr ''total'', JStr ''remaining'', JStr ''completed'']),
           (''storage'', [JStr ''localStorage'', JStr ''sessionStorage'']),
           (''completed_style'', [JStr ''strikethrough'', JStr ''gray color'', JStr ''different opacity''])],
        cfg_attachments =
           None,
        cfg_checks =
           Some [JDict [(''type'', JStr ''element_exists''), (''selector'', JStr ''input[type=\"text\"], input[type=\"search\"]'')],
           JDict [(''type'', JStr ''element_exists''), (''selector'', JStr ''button, [type=\"submit\"]'')],
           JDict [(''type'', JStr ''element_exists''), (''selector'', JStr ''ul, ol, .todo-list'')],
           JDict [(''type'', JStr ''add_todo''), (''text'', JStr ''Test Task''), (''result'', JStr ''task_appears'')],
           JDict [(''type'', JStr ''checkbox_toggle''), (''result'', JStr ''style_changes'')],
           JDict [(''type'', JStr ''delete_todo''), (''result'', JStr ''task_removed'')],
           JDict [(''type'', JStr ''localStorage|sessionStorage'')],
           JDict [(''type'', JStr ''element_exists''), (''selector'', JStr ''.counter, [class*=\"count\"]'')]]\<rparr>,
      tpl_round2 =
       \<lparr>cfg_brief =
           ''Enhance your todo list with:\<newline>- Categories or tags for tasks (minimum {num_categories} categories)\<newline>- Filter buttons (All, Active, Completed)\<newline>- Edit functionality for existing tasks\<newline>- Due date picker for tasks\<newline>- Priority levels (High, Medium, Low) with color coding\<newline>- Search/filter functionality\<newline>- Drag and drop to reorder tasks\<newline>- Export to JSON functionality'',
        cfg_params =
           Some [(''num_categories'', [JInt 3, JInt 4, JInt 5])],
        cfg_attachments =
           None,
        cfg_checks =
           Some [JDict [(''type'', JStr ''element_exists''), (''selector'', JStr ''select, [class*=\"category\"], [class*=\"tag\"]'')],
           JDict [(''type'', JStr ''button_exists''), (''text'', JList [JStr ''All'', JStr ''Active'', JStr ''Completed''])],
           JDict [(''type'', JStr ''filter_check''), (''filter'', JStr ''Completed''), (''result'', JStr ''shows_only_completed'')],
           JDict [(''type'', JStr ''element_exists''), (''selector'', JStr ''button[class*=\"edit\"], .edit-btn'')],
           JDict [(''type'', JStr ''element_exists''), (''selector'', JStr ''input[type=\"date\"], .date-picker'')],
           JDict [(''type'', JStr ''element_exists''), (''selector'', JStr ''[class*=\"priority\"], .high, .medium, .low'')],
           JDict [(''type'', JStr ''search_functionality''), (''query'', JStr ''test''), (''result'', JStr ''filters_tasks'')],
           JDict [(''type'', JStr ''drag_drop_check''), (''result'', JStr ''order_changes'')],
           JDict [(''type'', JStr ''export_check''), (''format'', JStr ''json'')]]\<rparr>\<rparr>"

definition template_weather_dashboard :: TaskTemplate where
  "template_weather_dashboard =
     \<lparr>tpl_id = ''weather-dashboard'', tpl_name = ''Weather Dashboard'',
      tpl_round1 =
       \<lparr>cfg_brief =
           ''Create a weather dashboard with:\<newline>- Display current weather for {default_city}\<newline>- Show temperature in {temp_unit}\<newline>- Display weather condition icon/emoji\<newline>- Show humidity and wind speed\<newline>- {num_days}-day forecast\<newline>- Search box to change location\<newline>- Responsive card-based layout\<newline>- Use mock/sample data (no API required for now)'',
        cfg_params =
           Some [(''default_city'', [JStr ''London'', JStr ''New York'', JStr ''Tokyo'', JStr ''Paris'']),
           (''temp_unit'', [JStr ''Celsius'', JStr ''Fahrenheit'']),
           (''num_days'', [JInt 3, JInt 5, JInt 7])],
        cfg_attachments =
           None,
        cfg_checks =
           Some [JDict [(''type'', JStr ''element_exists''), (''selector'', JStr ''.temperature, [class*=\"temp\"]'')],
           JDict [(''type'', JStr ''element_exists''), (''selector'', JStr ''.humidity, [class*=\"humidity\"]'')],
           JDict [(''type'', JStr ''element_exists''), (''selector'', JStr ''.wind, [class*=\"wind\"]'')],
           JDict [(''type'', JStr ''element_exists''), (''selector'', JStr ''img, .icon, .emoji'')],
           JDict [(''type'', JStr ''element_exists''), (''selector'', JStr ''.forecast, [class*=\"forecast\"]'')],
           JDict [(''type'', JStr ''element_exists''), (''selector'', JStr ''input[type=\"text\"], input[type=\"search\"]'')],
           JDict [(''type'', JStr ''forecast_count''), (''min_count'', JInt 3)]]\<rparr>,
      tpl_round2 =
       \<lparr>cfg_brief =
           (''Add these features to your weather dashboard:\<newline>- Hourly forecast (next {hourly_count} hours)\<newline>- Temperature chart/graph visualization\<newline>- Unit toggle (Celsius '' @ [CHR 0xE2, CHR 0x86, CHR 0x94] @ '' Fahrenheit)\<newline>- Save favorite locations (up to {fav_count} cities)\<newline>- Display sunrise and sunset times\<newline>- UV index indicator\<newline>- \"Feels like\" temperature\<newline>- Weather alerts section\<newline>- Auto-detect user location (with permission)''),
        cfg_params =
           Some [(''hourly_count'', [JInt 12, JInt 24]),
           (''fav_count'', [JInt 3, JInt 5])],
        cfg_attachments =
           None,
        cfg_checks =
           Some [JDict [(''type'', JStr ''element_exists''), (''selector'', JStr ''.hourly, [class*=\"hourly\"]'')],
           JDict [(''type'', JStr ''line|bar|canvas'')],
           JDict [(''type'', JStr ''toggle_exists''), (''states'', JList [JStr ([CHR 0xC2, CHR 0xB0] @ ''C''), JStr ([CHR 0xC2, CHR 0xB0] @ ''F'')])],
           JDict [(''type'', JStr ''element_exists''), (''selector'', JStr ''.favorites, [class*=\"favorite\"]'')],
           JDict [(''type'', JStr ''element_exists''), (''selector'', JStr ''.sunrise, .sunset, [class*=\"sun\"]'')],
           JDict [(''type'', JStr ''element_exists''), (''selector'', JStr ''.uv, [class*=\"uv-index\"]'')],
           JDict [(''type'', JStr ''element_exists''), (''selector'', JStr ''.feels-like, [class*=\"feels\"]'')],
           JDict [(''type'', JStr ''geolocation_check''), (''result'', JStr ''location_detected'')]]\<rparr>\<rparr>"

definition template_quiz_app :: TaskTemplate where
  "template_quiz_app =
     \<lparr>tpl_id = ''quiz-app'', tpl_name = ''Quiz Application'',
      tpl_round1 =
       \<lparr>cfg_brief =
           ''Create a quiz application with:\<newline>- {num_questions} multiple choice questions\<newline>- {choices_per_question} choices per question\<newline>- \"Next\" button to proceed through questions\<newline>- Display question number (e.g., \"Question 3 of 10\")\<newline>- Show final score at the end\<newline>- \"Restart Quiz\" button\<newline>- Visual feedback for selected answer\<newline>- {theme} color theme\<newline>- Questions provided in attachments'',
        cfg_params =
           Some [(''num_questions'', [JInt 5, JInt 10]),
           (''choices_per_question'', [JInt 4]),
           (''theme'', [JStr ''blue'', JStr ''green'', JStr ''purple'', JStr ''orange''])],
        cfg_attachments =
           Some [JDict [(''name'', JStr ''questions.json''), (''type'', JStr ''application/json''), (''content'', JStr ''[\<newline>                        {\"question\": \"What is 2+2?\", \"choices\": [\"3\", \"4\", \"5\", \"6\"], \"correct\": 1},\<newline>                        {\"question\": \"Capital of France?\", \"choices\": [\"London\", \"Berlin\", \"Paris\", \"Rome\"], \"correct\": 2}\<newline>                    ]'')]],
        cfg_checks =
           Some [JDict [(''type'', JStr ''element_exists''), (''selector'', JStr ''.question, [class*=\"question\"]'')],
           JDict [(''type'', JStr ''element_exists''), (''selector'', JStr ''input[type=\"radio\"], button[class*=\"choice\"]''), (''min_count'', JInt 4)],
           JDict [(''type'', JStr ''button_exists''), (''text'', JList [JStr ''Next'', JStr ''Continue''])],
           JDict [(''type'', JStr ''element_exists''), (''selector'', JStr ''.progress, [class*=\"question-num\"]'')],
           JDict [(''type'', JStr ''quiz_flow''), (''result'', JStr ''shows_score_at_end'')],
           JDict [(''type'', JStr ''button_exists''), (''text'', JList [JStr ''Restart'', JStr ''Try Again''])],
           JDict [(''type'', JStr ''selection_feedback''), (''result'', JStr ''visual_change'')]]\<rparr>,
      tpl_round2 =
       \<lparr>cfg_brief =
           ''Enhance your quiz app with:\<newline>- Timer for each question ({time_limit} seconds)\<newline>- Progress bar showing completion percentage\<newline>- Score breakdown (correct/incorrect/skipped)\<newline>- Review mode showing all answers after completion\<newline>- Highlight correct/wrong answers with {correct_color} and {wrong_color}\<newline>- Category selection (minimum {num_categories} categories)\<newline>- Leaderboard with top {leaderboard_size} scores (localStorage)\<newline>- Sound effects for correct/wrong answers\<newline>- Difficulty levels (Easy, Medium, Hard)'',
        cfg_params =
           Some [(''time_limit'', [JInt 30, JInt 45, JInt 60]),
           (''correct_color'', [JStr ''green'', JStr ''lightgreen'', JStr ''#00ff00'']),
           (''wrong_color'', [JStr ''red'', JStr ''lightcoral'', JStr ''#ff0000'']),
           (''num_categories'', [JInt 3, JInt 4]),
           (''leaderboard_size'', [JInt 5, JInt 10])],
        cfg_attachments =
           None,
        cfg_checks =
           Some [JDict [(''type'', JStr ''element_exists''), (''selector'', JStr ''.timer, [class*=\"timer\"]'')],
           JDict [(''type'', JStr ''timer_countdown''), (''result'', JStr ''time_decreases'')],
           JDict [(''type'', JStr ''element_exists''), (''selector'', JStr ''progress, .progress-bar'')],
           JDict [(''type'', JStr ''element_exists''), (''selector'', JStr ''.score-breakdown, .statistics'')],
           JDict [(''type'', JStr ''review_mode_check''), (''result'', JStr ''shows_all_questions'')],
           JDict [(''type'', JStr ''answer_highlighting''), (''correct'', JStr ''green''), (''wrong'', JStr ''red'')],
           JDict [(''type'', JStr ''category_selection''), (''min_categories'', JInt 3)],
           JDict [(''type'', JStr ''element_exists''), (''selector'', JStr ''.leaderboard, [class*=\"leader\"]'')],
           JDict [(''type'', JStr ''difficulty_selection''), (''levels'', JList [JStr ''Easy'', JStr ''Medium'', JStr ''Hard''])]]\<rparr>\<rparr>"

definition TEMPLATES :: "(string \<times> TaskTemplate) list" where
  "TEMPLATES =
     [(''image-viewer'', template_image_viewer),
      (''calculator'', template_calculator),
      (''todo-list'', template_todo_list),
      (''weather-dashboard'', template_weather_dashboard),
      (''quiz-app'', template_quiz_app)]"

text \<open>\<open>get_template\<close>: \<open>TEMPLATES.get(template_id)\<close>\<close>

definition get_template :: "string \<Rightarrow> TaskTemplate option" where
  "get_template template_id = map_of TEMPLATES template_id"

definition get_random_template :: "'g pylib \<Rightarrow> string \<Rightarrow> 'g \<Rightarrow> (py_error + TaskTemplate) \<times> 'g" where
  "get_random_template L seed g =
     random_choice L (map snd TEMPLATES) (random_seed L (md5_hexdigest L seed))"

definition generate_task_id :: "'g pylib \<Rightarrow> string \<Rightarrow> string \<Rightarrow> jv list \<Rightarrow> string" where
  "generate_task_id L template_id brief attachments =
     (let content = brief @ py_repr (JList attachments);
          hash_value = take 5 (hexdigest (sha256 L content))
      in template_id @ ''-'' @ hash_value)"

section \<open>round2.py: recovering the template of a task id\<close>

definition get_template_from_task_id :: "string \<Rightarrow> TaskTemplate option" where
  "get_template_from_task_id task_id =
     (let parts = str_split CHR ''-'' task_id
      in if length parts \<ge> 2 then get_template (str_join ''-'' (butlast parts)) else None)"

section \<open>db.py: the Ledger\<close>

text \<open>
  The three tables, each a list of rows in insertion order.  With no \<open>DELETE\<close> anywhere in
  the sources, the \<open>AUTOINCREMENT\<close> id of a row is its position plus one, and
  \<open>ORDER BY created_at\<close> is the insertion order.  The JSON text columns \<open>attachments\<close> and
  \<open>checks\<close> hold the value that \<open>json.dumps\<close> wrote.
\<close>

record task_row =
  tk_timestamp :: string
  tk_email :: string
  tk_task :: string
  tk_round :: int
  tk_nonce :: string
  tk_brief :: string
  tk_attachments :: "jv list"
  tk_checks :: "jv list"
  tk_evaluation_url :: string
  tk_endpoint :: string
  tk_statuscode :: "int option"
  tk_error :: "string option"

record repo_row =
  rp_timestamp :: string
  rp_email :: string
  rp_task :: string
  rp_round :: int
  rp_nonce :: string
  rp_repo_url :: string
  rp_commit_sha :: string
  rp_pages_url :: string

text \<open>A score is a Python float or \<open>None\<close>; the model keeps the exact rational value.\<close>

record result_row =
  rs_timestamp :: string
  rs_email :: string
  rs_task :: string
  rs_round :: int
  rs_repo_url :: string
  rs_commit_sha :: string
  rs_pages_url :: string
  rs_check :: string
  rs_score :: "rat option"
  rs_reason :: "string option"
  rs_logs :: "string option"

record database =
  tasks :: "task_row list"
  repos :: "repo_row list"
  results :: "result_row list"

definition str_error :: "py_error \<Rightarrow> string" where
  "str_error e =
     (case e of
        IndexError \<Rightarrow> ''Cannot choose from an empty sequence''
      | IntegrityError \<Rightarrow> ''UNIQUE constraint failed''
      | OperationalError m \<Rightarrow> m)"

text \<open>\<open>Database.task_exists\<close>: \<open>SELECT COUNT(*) ... > 0\<close>\<close>

definition task_exists :: "database \<Rightarrow> string \<Rightarrow> string \<Rightarrow> int \<Rightarrow> bool" where
  "task_exists db email task rnd =
     (0 < length (filter (\<lambda>r. tk_email r = email \<and> tk_task r = task \<and> tk_round r = rnd) (tasks db)))"

text \<open>
  \<open>Database.insert_task\<close>.  The table declares \<open>nonce UNIQUE\<close> and
  \<open>UNIQUE(email, task, round)\<close>; a row that breaks either raises \<open>sqlite3.IntegrityError\<close>
  and nothing is written.  The result is the new row id and the new database.
\<close>

definition insert_task :: "database \<Rightarrow> task_row \<Rightarrow> py_error + nat \<times> database" where
  "insert_task db task_data =
     (if list_ex (\<lambda>r. tk_nonce r = tk_nonce task_data) (tasks db)
         \<or> list_ex (\<lambda>r. tk_email r = tk_email task_data \<and> tk_task r = tk_task task_data
                          \<and> tk_round r = tk_round task_data) (tasks db)
      then Inl IntegrityError
      else Inr (length (tasks db) + 1, db\<lparr>tasks := tasks db @ [task_data]\<rparr>))"

text \<open>\<open>Database.get_task_by_nonce\<close>: \<open>fetchone()\<close> of the rows with that nonce.\<close>

definition get_task_by_nonce :: "database \<Rightarrow> string \<Rightarrow> task_row option" where
  "get_task_by_nonce db nonce = find (\<lambda>r. tk_nonce r = nonce) (tasks db)"

definition get_tasks_by_round :: "database \<Rightarrow> int \<Rightarrow> task_row list" where
  "get_tasks_by_round db rnd = filter (\<lambda>r. tk_round r = rnd) (tasks db)"

definition repo_exists :: "database \<Rightarrow> string \<Rightarrow> string \<Rightarrow> int \<Rightarrow> bool" where
  "repo_exists db email task rnd =
     (0 < length (filter (\<lambda>r. rp_email r = email \<and> rp_task r = task \<and> rp_round r = rnd) (repos db)))"

text \<open>
  \<open>Database.insert_repo\<close>.  The table declares \<open>UNIQUE(email, task, round)\<close>; the foreign
  key on \<open>nonce\<close> is not enforced, since no connection turns \<open>foreign_keys\<close> on.
\<close>

definition insert_repo :: "database \<Rightarrow> repo_row \<Rightarrow> py_error + nat \<times> database" where
  "insert_repo db repo_data =
     (if list_ex (\<lambda>r. rp_email r = rp_email repo_data \<and> rp_task r = rp_task repo_data
                        \<and> rp_round r = rp_round repo_data) (repos db)
      then Inl IntegrityError
      else Inr (length (repos db) + 1, db\<lparr>repos := repos db @ [repo_data]\<rparr>))"

definition get_repos_to_evaluate :: "database \<Rightarrow> int option \<Rightarrow> repo_row list" where
  "get_repos_to_evaluate db rnd =
     (case rnd of
        Some n \<Rightarrow> filter (\<lambda>r. rp_round r = n) (repos db)
      | None \<Rightarrow> repos db)"

definition get_repo_by_nonce :: "database \<Rightarrow> string \<Rightarrow> repo_row option" where
  "get_repo_by_nonce db nonce = find (\<lambda>r. rp_nonce r = nonce) (repos db)"

definition result_exists :: "database \<Rightarrow> string \<Rightarrow> string \<Rightarrow> int \<Rightarrow> bool" where
  "result_exists db email task rnd =
     (0 < length (filter (\<lambda>r. rs_email r = email \<and> rs_task r = task \<and> rs_round r = rnd) (results db)))"

text \<open>
  \<open>Database.insert_result\<close>.  Its \<open>INSERT\<close> statement names the column \<open>check\<close> without
  quotes (the \<open>CREATE TABLE\<close> statement quotes it).  \<open>CHECK\<close> is a reserved word of SQLite,
  so the statement does not parse: \<open>cursor.execute\<close> raises \<open>sqlite3.OperationalError\<close> and
  no row is written.
\<close>

definition insert_result :: "database \<Rightarrow> result_row \<Rightarrow> py_error + nat \<times> database" where
  "insert_result db result_data = Inl (OperationalError ''near \"check\": syntax error'')"

text \<open>
  \<open>Database.get_results\<close>: the filter on \<open>email\<close> is added under \<open>if email:\<close>, so not for
  \<open>None\<close> and not for the empty string; the filter on \<open>round\<close> under \<open>is not None\<close>.
\<close>

definition get_results :: "database \<Rightarrow> string option \<Rightarrow> int option \<Rightarrow> result_row list" where
  "get_results db email rnd =
     filter (\<lambda>r. (case email of
                     None \<Rightarrow> True
                   | Some e \<Rightarrow> if e = [] then True else rs_email r = e)
               \<and> (case rnd of None \<Rightarrow> True | Some n \<Rightarrow> rs_round r = n))
       (results db)"

text \<open>
  \<open>Database.get_repos_without_results\<close>: the repos of the round that the \<open>LEFT JOIN\<close> pairs
  with no result row.
\<close>

definition get_repos_without_results :: "database \<Rightarrow> int \<Rightarrow> repo_row list" where
  "get_repos_without_results db rnd =
     filter (\<lambda>r. rp_round r = rnd
               \<and> \<not> list_ex (\<lambda>res. rp_email r = rs_email res \<and> rp_task r = rs_task res
                                   \<and> rp_round r = rs_round res) (results db))
       (repos db)"

section \<open>api\_server.py: the submission-ingestion endpoint\<close>

record EvaluationRequest =
  rq_email :: string
  rq_task :: string
  rq_round :: int
  rq_nonce :: string
  rq_repo_url :: string
  rq_commit_sha :: string
  rq_pages_url :: string

datatype http_exception = HTTPException int string

record evaluation_response =
  er_success :: bool
  er_message :: string
  er_repo_id :: nat
  er_timestamp :: string

text \<open>
  \<open>evaluation_endpoint\<close>.  \<open>now1\<close> and \<open>now2\<close> are the \<open>isoformat()\<close> texts of its two readings
  of \<open>datetime.utcnow()\<close>.  An \<open>HTTPException\<close> raised in the body passes the
  \<open>except HTTPException: raise\<close> clause unchanged; any other exception becomes status 500.
\<close>

definition evaluation_endpoint ::
  "string \<Rightarrow> string \<Rightarrow> EvaluationRequest \<Rightarrow> database \<Rightarrow> (http_exception + evaluation_response) \<times> database" where
  "evaluation_endpoint now1 now2 request db =
     (case get_task_by_nonce db (rq_nonce request) of
        None \<Rightarrow> (Inl (HTTPException 400 ''Invalid nonce. Task not found.''), db)
      | Some task \<Rightarrow>
          if tk_email task \<noteq> rq_email request then
            (Inl (HTTPException 400 ''Email does not match the task record.''), db)
          else if tk_task task \<noteq> rq_task request then
            (Inl (HTTPException 400 ''Task ID does not match the task record.''), db)
          else if tk_round task \<noteq> rq_round request then
            (Inl (HTTPException 400 ''Round number does not match the task record.''), db)
          else if repo_exists db (rq_email request) (rq_task request) (rq_round request) then
            (Inl (HTTPException 400
               ''Repository has already been submitted for this task and round.''), db)
          else
            let repo_data = \<lparr>rp_timestamp = now1, rp_email = rq_email request,
                             rp_task = rq_task request, rp_round = rq_round request,
                             rp_nonce = rq_nonce request, rp_repo_url = rq_repo_url request,
                             rp_commit_sha = rq_commit_sha request,
                             rp_pages_url = rq_pages_url request\<rparr>
            in case insert_repo db repo_data of
                 Inl e \<Rightarrow> (Inl (HTTPException 500 (''Internal server error: '' @ str_error e)), db)
               | Inr (repo_id, db') \<Rightarrow>
                   (Inr \<lparr>er_success = True,
                         er_message = ''Repository submission recorded successfully'',
                         er_repo_id = repo_id,
                         er_timestamp = now2 @ ''Z''\<rparr>, db'))"

section \<open>evaluate.py: the evaluation loop\<close>

text \<open>
  \<open>for result in results: db.insert_result(result)\<close>: the first insert that raises ends the
  loop with its exception; rows written before it stay.
\<close>

fun save_results :: "database \<Rightarrow> result_row list \<Rightarrow> py_error option \<times> database" where
  "save_results db [] = (None, db)"
| "save_results db (r # rs) =
     (case insert_result db r of
        Inl e \<Rightarrow> (Some e, db)
      | Inr (result_id, db') \<Rightarrow> save_results db' rs)"

text \<open>
  The loop \<open>for repo in repos\<close> of \<open>main\<close>.  \<open>evaluate_repo\<close> stands for
  \<open>evaluator.evaluate_repo\<close>: it reads the ledger, acts on the world \<open>'w\<close> (GitHub, the
  deployed page) and returns the results or raises.  The counters are \<open>evaluated\<close> and
  \<open>failed\<close>; an exception anywhere in the body is caught and counted as failed.
\<close>

fun evaluate_repos ::
  "(repo_row \<Rightarrow> database \<Rightarrow> 'w \<Rightarrow> (string + result_row list) \<times> 'w) \<Rightarrow> repo_row list \<Rightarrow>
   database \<Rightarrow> 'w \<Rightarrow> nat \<Rightarrow> nat \<Rightarrow> database \<times> 'w \<times> nat \<times> nat" where
  "evaluate_repos evaluate_repo [] db w evaluated failed = (db, w, evaluated, failed)"
| "evaluate_repos evaluate_repo (repo # rest) db w evaluated failed =
     (if result_exists db (rp_email repo) (rp_task repo) (rp_round repo) then
        evaluate_repos evaluate_repo rest db w evaluated failed
      else
        (case evaluate_repo repo db w of
           (Inl e, w1) \<Rightarrow> evaluate_repos evaluate_repo rest db w1 evaluated (failed + 1)
         | (Inr res, w1) \<Rightarrow>
             (case save_results db res of
                (Some e, db1) \<Rightarrow> evaluate_repos evaluate_repo rest db1 w1 evaluated (failed + 1)
              | (None, db1) \<Rightarrow> evaluate_repos evaluate_repo rest db1 w1 (evaluated + 1) failed)))"

text \<open>
  \<open>main\<close> of evaluate.py.  \<open>round_filter\<close> is the number after \<open>--round\<close>, if given;
  \<open>if round_filter:\<close> is false for \<open>None\<close> and for 0.
\<close>

definition evaluate_main ::
  "(repo_row \<Rightarrow> database \<Rightarrow> 'w \<Rightarrow> (string + result_row list) \<times> 'w) \<Rightarrow> int option \<Rightarrow>
   database \<Rightarrow> 'w \<Rightarrow> database \<times> 'w \<times> nat \<times> nat" where
  "evaluate_main evaluate_repo round_filter db w =
     (let rs = (case round_filter of
                  None \<Rightarrow> get_repos_to_evaluate db None
                | Some n \<Rightarrow> if n \<noteq> 0 then get_repos_without_results db n
                            else get_repos_to_evaluate db None)
      in evaluate_repos evaluate_repo rs db w 0 0)"

section \<open>round2.py: eligibility for Round 2\<close>

definition critical_checks :: "string list" where
  "critical_checks = [''mit_license'', ''page_load'']"

text \<open>
  The loop \<open>for result in results\<close> of \<open>should_generate_round2\<close>: \<open>False\<close> at the first
  critical check with \<open>score == 0\<close> (a \<open>NULL\<close> score is \<open>None\<close>, which is not 0), \<open>True\<close>
  after the loop.
\<close>

fun no_critical_failure :: "result_row list \<Rightarrow> bool" where
  "no_critical_failure [] = True"
| "no_critical_failure (r # rs) =
     (if rs_check r \<in> set critical_checks \<and> rs_score r = Some 0 then False
      else no_critical_failure rs)"

definition should_generate_round2 :: "repo_row \<Rightarrow> database \<Rightarrow> bool" where
  "should_generate_round2 repo db =
     (let email = rp_email repo in
      if task_exists db email (rp_task repo) 2 then False
      else if repo_exists db email (rp_task repo) 2 then False
      else let res = get_results db (Some email) (Some 1) in
           if res = [] then True
           else no_critical_failure res)"

section \<open>round1.py: generating and dispatching Round-1 tasks\<close>

text \<open>
  \<open>datetime.utcnow()\<close> gives a date and time; \<open>strftime_hour\<close> is
  \<open>strftime("%Y-%m-%d-%H")\<close> and \<open>isoformat\<close> is \<open>isoformat()\<close>, for years of four digits.
\<close>

record datetime =
  dt_year :: nat
  dt_month :: nat
  dt_day :: nat
  dt_hour :: nat
  dt_minute :: nat
  dt_second :: nat
  dt_microsecond :: nat

definition zfill :: "nat \<Rightarrow> string \<Rightarrow> string" where
  "zfill n s = replicate (n - length s) CHR ''0'' @ s"

definition strftime_hour :: "datetime \<Rightarrow> string" where
  "strftime_hour dt =
     zfill 4 (str_nat (dt_year dt)) @ ''-'' @ zfill 2 (str_nat (dt_month dt)) @ ''-''
       @ zfill 2 (str_nat (dt_day dt)) @ ''-'' @ zfill 2 (str_nat (dt_hour dt))"

definition isoformat :: "datetime \<Rightarrow> string" where
  "isoformat dt =
     zfill 4 (str_nat (dt_year dt)) @ ''-'' @ zfill 2 (str_nat (dt_month dt)) @ ''-''
       @ zfill 2 (str_nat (dt_day dt)) @ ''T'' @ zfill 2 (str_nat (dt_hour dt)) @ '':''
       @ zfill 2 (str_nat (dt_minute dt)) @ '':'' @ zfill 2 (str_nat (dt_second dt))
       @ (if dt_microsecond dt = 0 then [] else ''.'' @ zfill 6 (str_nat (dt_microsecond dt)))"

text \<open>
  The world of the generator adds, to the HTTP world, what the clock and \<open>uuid.uuid4()\<close>
  give at each reading and the state of the module-level generator of \<open>random\<close>.
\<close>

record 'g pyworld = world +
  clock :: "nat \<Rightarrow> datetime"
  clock_reads :: nat
  uuids :: "nat \<Rightarrow> string"
  uuid_reads :: nat
  rng :: 'g

definition utcnow :: "('g, 'a) pyworld_scheme \<Rightarrow> datetime \<times> ('g, 'a) pyworld_scheme" where
  "utcnow w = (clock w (clock_reads w), w\<lparr>clock_reads := clock_reads w + 1\<rparr>)"

definition uuid4 :: "('g, 'a) pyworld_scheme \<Rightarrow> string \<times> ('g, 'a) pyworld_scheme" where
  "uuid4 w = (uuids w (uuid_reads w), w\<lparr>uuid_reads := uuid_reads w + 1\<rparr>)"

definition EVALUATION_URL :: string where
  "EVALUATION_URL = ''http://localhost:8000/api/evaluation''"

definition REQUEST_TIMEOUT :: nat where
  "REQUEST_TIMEOUT = 300"

definition MAX_RETRIES :: nat where
  "MAX_RETRIES = 3"

definition RETRY_DELAYS :: "nat list" where
  "RETRY_DELAYS = [60, 180, 600]"

text \<open>A row of \<open>submissions.csv\<close>.\<close>

record submission =
  sub_timestamp :: string
  sub_email :: string
  sub_endpoint :: string
  sub_secret :: string

text \<open>
  The task dictionary.  \<open>statuscode\<close> and \<open>error\<close> are the keys the batch loop adds after
  the dispatch; before that they are absent, which reads as \<open>None\<close>.
\<close>

record task =
  task_timestamp :: string
  task_email :: string
  task_task :: string
  task_round :: int
  task_nonce :: string
  task_brief :: string
  task_attachments :: "jv list"
  task_checks :: "jv list"
  task_evaluation_url :: string
  task_endpoint :: string
  task_secret :: string
  task_statuscode :: "int option"
  task_error :: "string option"

text \<open>The columns \<open>Database.insert_task\<close> takes from the task dictionary; the secret is not stored.\<close>

definition task_columns :: "task \<Rightarrow> task_row" where
  "task_columns t =
     \<lparr>tk_timestamp = task_timestamp t, tk_email = task_email t, tk_task = task_task t,
      tk_round = task_round t, tk_nonce = task_nonce t, tk_brief = task_brief t,
      tk_attachments = task_attachments t, tk_checks = task_checks t,
      tk_evaluation_url = task_evaluation_url t, tk_endpoint = task_endpoint t,
      tk_statuscode = task_statuscode t, tk_error = task_error t\<rparr>"

text \<open>\<open>generate_task\<close>\<close>

definition generate_task ::
  "'g pylib \<Rightarrow> submission \<Rightarrow> int \<Rightarrow> ('g, 'a) pyworld_scheme \<Rightarrow> (py_error + task) \<times> ('g, 'a) pyworld_scheme" where
  "generate_task L sub rnd w =
     (let (dt, w1) = utcnow w;
          timestamp_hour = strftime_hour dt;
          seed = sub_email sub @ ''-'' @ timestamp_hour
      in case get_random_template L seed (rng w1) of
           (Inl e, g1) \<Rightarrow> (Inl e, w1\<lparr>rng := g1\<rparr>)
         | (Inr template, g1) \<Rightarrow>
             (case generate L template rnd (sub_email sub) timestamp_hour g1 of
                (Inl e, g2) \<Rightarrow> (Inl e, w1\<lparr>rng := g2\<rparr>)
              | (Inr task_content, g2) \<Rightarrow>
                  let task_id = generate_task_id L (tpl_id template) (tc_brief task_content)
                                  (tc_attachments task_content);
                      (nonce, w2) = uuid4 (w1\<lparr>rng := g2\<rparr>)
                  in (Inr \<lparr>task_timestamp = isoformat dt, task_email = sub_email sub,
                           task_task = task_id, task_round = rnd, task_nonce = nonce,
                           task_brief = tc_brief task_content,
                           task_attachments = tc_attachments task_content,
                           task_checks = tc_checks task_content,
                           task_evaluation_url = EVALUATION_URL,
                           task_endpoint = sub_endpoint sub, task_secret = sub_secret sub,
                           task_statuscode = None, task_error = None\<rparr>, w2)))"

text \<open>
  The loop \<open>for attempt in range(MAX_RETRIES)\<close> of \<open>post_task_to_student\<close>; round1.py and
  round2.py hold the same loop, each with its own \<open>MAX_RETRIES\<close> and \<open>RETRY_DELAYS\<close>.
  \<open>except requests.exceptions.Timeout\<close> takes a timeout, \<open>except
  requests.exceptions.RequestException\<close> takes the other exceptions of \<open>requests\<close>
  (\<open>ConnectionError\<close> is one); any other exception is not caught and leaves the function
  (\<open>Inl\<close>), as an \<open>IndexError\<close> of \<open>RETRY_DELAYS[attempt]\<close> would.
\<close>

fun post_attempts ::
  "nat \<Rightarrow> nat list \<Rightarrow> nat \<Rightarrow> string \<Rightarrow> jv \<Rightarrow> nat list \<Rightarrow> 'a world_scheme \<Rightarrow>
   (string + int \<times> string option) \<times> 'a world_scheme" where
  "post_attempts n_retries retry_delays request_timeout endpoint payload [] w =
     (Inr (0, Some ''Failed after all retries''), w)"
| "post_attempts n_retries retry_delays request_timeout endpoint payload (attempt # rest) w =
     (case requests_post endpoint payload w of
        (Response code body, w1) \<Rightarrow>
          if code = 200 then (Inr (code, None), w1)
          else
            let error_msg = ''HTTP '' @ str_int code @ '': '' @ take 200 body in
            if attempt < n_retries - 1 then
              if attempt < length retry_delays then
                post_attempts n_retries retry_delays request_timeout endpoint payload rest
                  (time_sleep (retry_delays ! attempt) w1)
              else (Inl ''list index out of range'', w1)
            else (Inr (code, Some error_msg), w1)
      | (RaisedTimeout e, w1) \<Rightarrow>
          let error_msg = ''Timeout after '' @ str_nat request_timeout @ ''s'' in
          if attempt < n_retries - 1 then
            if attempt < length retry_delays then
              post_attempts n_retries retry_delays request_timeout endpoint payload rest
                (time_sleep (retry_delays ! attempt) w1)
            else (Inl ''list index out of range'', w1)
          else (Inr (0, Some error_msg), w1)
      | (RaisedConnectionError e, w1) \<Rightarrow>
          let error_msg = ''Request error: '' @ e in
          if attempt < n_retries - 1 then
            if attempt < length retry_delays then
              post_attempts n_retries retry_delays request_timeout endpoint payload rest
                (time_sleep (retry_delays ! attempt) w1)
            else (Inl ''list index out of range'', w1)
          else (Inr (0, Some error_msg), w1)
      | (RaisedRequestException e, w1) \<Rightarrow>
          let error_msg = ''Request error: '' @ e in
          if attempt < n_retries - 1 then
            if attempt < length retry_delays then
              post_attempts n_retries retry_delays request_timeout endpoint payload rest
                (time_sleep (retry_delays ! attempt) w1)
            else (Inl ''list index out of range'', w1)
          else (Inr (0, Some error_msg), w1)
      | (RaisedException e, w1) \<Rightarrow> (Inl e, w1))"

text \<open>
  The payload dictionary \<open>post_task_to_student\<close> builds from the task (the internal fields
  left out), the same in round1.py and round2.py, and \<open>post_task_to_student\<close> of round1.py.
\<close>

definition task_payload :: "task \<Rightarrow> jv" where
  "task_payload t =
     JDict [(''email'', JStr (task_email t)), (''task'', JStr (task_task t)),
            (''round'', JInt (task_round t)), (''nonce'', JStr (task_nonce t)),
            (''brief'', JStr (task_brief t)), (''attachments'', JList (task_attachments t)),
            (''checks'', JList (task_checks t)),
            (''evaluation_url'', JStr (task_evaluation_url t)),
            (''secret'', JStr (task_secret t))]"

definition post_task_to_student ::
  "task \<Rightarrow> 'a world_scheme \<Rightarrow> (string + int \<times> string option) \<times> 'a world_scheme" where
  "post_task_to_student t w =
     post_attempts MAX_RETRIES RETRY_DELAYS REQUEST_TIMEOUT (task_endpoint t) (task_payload t)
       [0..<MAX_RETRIES] w"

text \<open>
  The loop \<open>for submission in submissions\<close> of \<open>process_submissions\<close>, with the counters
  \<open>processed\<close>, \<open>skipped\<close> and \<open>failed\<close>.  The loop has no \<open>try\<close>: an exception of
  \<open>generate_task\<close>, \<open>post_task_to_student\<close> or \<open>insert_task\<close> ends the batch (\<open>Inl\<close>).
\<close>

fun process_loop ::
  "'g pylib \<Rightarrow> submission list \<Rightarrow> int \<Rightarrow> database \<Rightarrow> ('g, 'a) pyworld_scheme \<Rightarrow>
   nat \<times> nat \<times> nat \<Rightarrow> (string + nat \<times> nat \<times> nat) \<times> database \<times> ('g, 'a) pyworld_scheme" where
  "process_loop L [] rnd db w counts = (Inr counts, db, w)"
| "process_loop L (sub # rest) rnd db w (processed, skipped, failed) =
     (case generate_task L sub rnd w of
        (Inl e, w1) \<Rightarrow> (Inl (str_error e), db, w1)
      | (Inr t, w1) \<Rightarrow>
          if task_exists db (sub_email sub) (task_task t) rnd then
            process_loop L rest rnd db w1 (processed, skipped + 1, failed)
          else
            (case post_task_to_student t w1 of
               (Inl e, w2) \<Rightarrow> (Inl e, db, w2)
             | (Inr (code, err), w2) \<Rightarrow>
                 (case insert_task db
                         (task_columns (t\<lparr>task_statuscode := Some code, task_error := err\<rparr>)) of
                    Inl e \<Rightarrow> (Inl (str_error e), db, w2)
                  | Inr (task_id, db') \<Rightarrow>
                      process_loop L rest rnd db' (time_sleep 1 w2)
                        (if code = 200 then (processed + 1, skipped, failed)
                         else (processed, skipped, failed + 1)))))"

definition process_submissions ::
  "'g pylib \<Rightarrow> submission list \<Rightarrow> int \<Rightarrow> database \<Rightarrow> ('g, 'a) pyworld_scheme \<Rightarrow>
   (string + nat \<times> nat \<times> nat) \<times> database \<times> ('g, 'a) pyworld_scheme" where
  "process_submissions L submissions rnd db w = process_loop L submissions rnd db w (0, 0, 0)"

section \<open>round2.py: dispatching Round-2 tasks\<close>

definition round2_REQUEST_TIMEOUT :: nat where
  "round2_REQUEST_TIMEOUT = 300"

definition round2_MAX_RETRIES :: nat where
  "round2_MAX_RETRIES = 3"

definition round2_RETRY_DELAYS :: "nat list" where
  "round2_RETRY_DELAYS = [60, 180, 600]"

text \<open>\<open>post_task_to_student\<close> of round2.py\<close>

definition round2_post_task_to_student ::
  "task \<Rightarrow> 'a world_scheme \<Rightarrow> (string + int \<times> string option) \<times> 'a world_scheme" where
  "round2_post_task_to_student t w =
     post_attempts round2_MAX_RETRIES round2_RETRY_DELAYS round2_REQUEST_TIMEOUT
       (task_endpoint t) (task_payload t) [0..<round2_MAX_RETRIES] w"

section \<open>evaluate.py: the Check Execution Engine\<close>

text \<open>
  A Check descriptor, by the keys the engine reads with \<open>check.get\<close>: \<open>None\<close> is a key the
  dictionary lacks.  The values have the JSON types the catalog gives them; \<open>text\<close> may be
  one string or a list of strings.  Keys the engine never reads are left out.
\<close>

datatype text_options = TextStr string | TextList "string list"

record check =
  c_type :: "string option"
  c_selector :: "string option"
  c_min_count :: "int option"
  c_text :: "text_options option"
  c_result :: "string option"
  c_breakpoints :: "int list option"

text \<open>\<open>s.lower()\<close> on ASCII letters, and \<open>sub in s\<close>.\<close>

definition str_lower :: "string \<Rightarrow> string" where
  "str_lower s =
     map (\<lambda>c. let n = (of_char c :: nat) in if 65 \<le> n \<and> n \<le> 90 then char_of (n + 32) else c) s"

fun str_contains :: "string \<Rightarrow> string \<Rightarrow> bool" where
  "str_contains sub [] = (sub = [])"
| "str_contains sub (c # cs) = (take (length sub) (c # cs) = sub \<or> str_contains sub cs)"

text \<open>
  A parsed page of the static backend: \<open>soup_select\<close> is the number of elements
  \<open>soup.select(selector)\<close> finds, or the text of the exception it raises;
  \<open>soup_buttons\<close> are the \<open>get_text()\<close> of the elements of
  \<open>soup.find_all(['button', 'input'])\<close>, in document order.
\<close>

record soup =
  soup_select :: "string \<Rightarrow> string + nat"
  soup_buttons :: "string list"

datatype goto_error = PlaywrightTimeout string | GotoException string

text \<open>
  What the engine acts on, over a state \<open>'s\<close> of the outside (browser, page, network).
  Every operation returns the new state and either its value or the text \<open>str(e)\<close> of the
  exception it raises.  An element handle is named by the selector that found it;
  \<open>query_selector\<close> tells whether an element was found, \<open>bounding_box_width\<close> gives the
  width of the box or \<open>None\<close> when there is no box.  \<open>launch\<close> stands for entering
  \<open>async_playwright()\<close>, launching the browser and opening the page.
\<close>

record 's engine =
  utcnow_iso :: "'s \<Rightarrow> string"
  PLAYWRIGHT_AVAILABLE :: bool
  launch :: "'s \<Rightarrow> (string + unit) \<times> 's"
  goto :: "string \<Rightarrow> 's \<Rightarrow> (goto_error + unit) \<times> 's"
  browser_close :: "'s \<Rightarrow> 's"
  query_selector_all :: "string \<Rightarrow> 's \<Rightarrow> (string + nat) \<times> 's"
  query_selector :: "string \<Rightarrow> 's \<Rightarrow> (string + bool) \<times> 's"
  element_click :: "string \<Rightarrow> 's \<Rightarrow> (string + unit) \<times> 's"
  wait_for_timeout :: "nat \<Rightarrow> 's \<Rightarrow> (string + unit) \<times> 's"
  is_visible :: "string \<Rightarrow> 's \<Rightarrow> (string + bool) \<times> 's"
  set_viewport_size :: "int \<Rightarrow> int \<Rightarrow> 's \<Rightarrow> (string + unit) \<times> 's"
  bounding_box_width :: "string \<Rightarrow> 's \<Rightarrow> (string + rat option) \<times> 's"
  requests_get :: "string \<Rightarrow> 's \<Rightarrow> (string + int \<times> soup) \<times> 's"

text \<open>\<open>_create_result\<close>: the result dictionary, with the clock read in state \<open>s\<close>.\<close>

definition create_result ::
  "'s engine \<Rightarrow> 's \<Rightarrow> repo_row \<Rightarrow> string \<Rightarrow> rat \<Rightarrow> string \<Rightarrow> string \<Rightarrow> result_row" where
  "create_result E s repo chk score reason logs =
     \<lparr>rs_timestamp = utcnow_iso E s, rs_email = rp_email repo, rs_task = rp_task repo,
      rs_round = rp_round repo, rs_repo_url = rp_repo_url repo,
      rs_commit_sha = rp_commit_sha repo, rs_pages_url = rp_pages_url repo,
      rs_check = chk, rs_score = Some score, rs_reason = Some reason, rs_logs = Some logs\<rparr>"

definition get_selector :: "check \<Rightarrow> string" where
  "get_selector chk = (case c_selector chk of None \<Rightarrow> [] | Some x \<Rightarrow> x)"

definition get_min_count :: "check \<Rightarrow> int" where
  "get_min_count chk = (case c_min_count chk of None \<Rightarrow> 1 | Some n \<Rightarrow> n)"

text \<open>\<open>text_options\<close>: \<open>check.get('text', [])\<close>, a single string wrapped in a list.\<close>

definition get_text_options :: "check \<Rightarrow> string list" where
  "get_text_options chk =
     (case c_text chk of None \<Rightarrow> [] | Some (TextStr t) \<Rightarrow> [t] | Some (TextList ts) \<Rightarrow> ts)"

definition get_type :: "check \<Rightarrow> string" where
  "get_type chk = (case c_type chk of None \<Rightarrow> [] | Some x \<Rightarrow> x)"

text \<open>
  \<open>_check_element_exists\<close>: first its \<open>try\<close> block, which may raise, then the method with
  its \<open>except\<close> clause.
\<close>

definition check_element_exists_try ::
  "'s engine \<Rightarrow> check \<Rightarrow> repo_row \<Rightarrow> 's \<Rightarrow> (string + result_row) \<times> 's" where
  "check_element_exists_try E chk repo s =
     (let selector = get_selector chk; min_count = get_min_count chk in
      case query_selector_all E selector s of
        (Inl e, s1) \<Rightarrow> (Inl e, s1)
      | (Inr count, s1) \<Rightarrow>
          if int count \<ge> min_count then
            (Inr (create_result E s1 repo (''element_'' @ take 20 selector) 1
                    (''Found '' @ str_nat count @ '' elements (expected >='' @ str_int min_count @ '')'')
                    ''''), s1)
          else
            (Inr (create_result E s1 repo (''element_'' @ take 20 selector) 0
                    (''Found '' @ str_nat count @ '' elements (expected >='' @ str_int min_count @ '')'')
                    ''''), s1))"

definition check_element_exists :: "'s engine \<Rightarrow> check \<Rightarrow> repo_row \<Rightarrow> 's \<Rightarrow> result_row \<times> 's" where
  "check_element_exists E chk repo s =
     (case check_element_exists_try E chk repo s of
        (Inr r, s1) \<Rightarrow> (r, s1)
      | (Inl e, s1) \<Rightarrow>
          (create_result E s1 repo (''element_'' @ take 20 (get_selector chk)) 0
             (''Error: '' @ e) '''', s1))"

text \<open>\<open>_check_button_exists\<close>: the loop \<open>for text in text_options\<close>, the \<open>try\<close> block, the method.\<close>

fun button_loop ::
  "'s engine \<Rightarrow> repo_row \<Rightarrow> string list \<Rightarrow> 's \<Rightarrow> (string + result_row option) \<times> 's" where
  "button_loop E repo [] s = (Inr None, s)"
| "button_loop E repo (t # rest) s =
     (case query_selector E
             (''button:has-text(\"'' @ t @ ''\"), [type=\"button\"]:has-text(\"'' @ t @ ''\")'') s of
        (Inl e, s1) \<Rightarrow> (Inl e, s1)
      | (Inr element, s1) \<Rightarrow>
          if element then
            (Inr (Some (create_result E s1 repo (''button_'' @ take 20 t) 1
                          (''Button with text \"'' @ t @ ''\" found'') '''')), s1)
          else button_loop E repo rest s1)"

definition check_button_exists_try ::
  "'s engine \<Rightarrow> check \<Rightarrow> repo_row \<Rightarrow> 's \<Rightarrow> (string + result_row) \<times> 's" where
  "check_button_exists_try E chk repo s =
     (let text_options = get_text_options chk in
      case button_loop E repo text_options s of
        (Inl e, s1) \<Rightarrow> (Inl e, s1)
      | (Inr (Some r), s1) \<Rightarrow> (Inr r, s1)
      | (Inr None, s1) \<Rightarrow>
          (Inr (create_result E s1 repo ''button_check'' 0
                  (''No button found with text: '' @ py_repr (JList (map JStr text_options))) ''''),
           s1))"

definition check_button_exists :: "'s engine \<Rightarrow> check \<Rightarrow> repo_row \<Rightarrow> 's \<Rightarrow> result_row \<times> 's" where
  "check_button_exists E chk repo s =
     (case check_button_exists_try E chk repo s of
        (Inr r, s1) \<Rightarrow> (r, s1)
      | (Inl e, s1) \<Rightarrow> (create_result E s1 repo ''button_check'' 0 (''Error: '' @ e) '''', s1))"

text \<open>\<open>_check_click_interaction\<close>\<close>

definition check_click_interaction_try ::
  "'s engine \<Rightarrow> check \<Rightarrow> repo_row \<Rightarrow> 's \<Rightarrow> (string + result_row) \<times> 's" where
  "check_click_interaction_try E chk repo s =
     (let selector = get_selector chk;
          expected_result = (case c_result chk of None \<Rightarrow> [] | Some x \<Rightarrow> x);
          unclear = (\<lambda>s'. (Inr (create_result E s' repo ''click_interaction'' (1 / 2)
                                  ''Click registered but expected result unclear'' ''''), s'))
      in case query_selector E selector s of
           (Inl e, s1) \<Rightarrow> (Inl e, s1)
         | (Inr element, s1) \<Rightarrow>
             if \<not> element then
               (Inr (create_result E s1 repo ''click_interaction'' 0
                       (''Element not found: '' @ selector) ''''), s1)
             else
               (case element_click E selector s1 of
                  (Inl e, s2) \<Rightarrow> (Inl e, s2)
                | (Inr u, s2) \<Rightarrow>
                    (case wait_for_timeout E 500 s2 of
                       (Inl e, s3) \<Rightarrow> (Inl e, s3)
                     | (Inr u', s3) \<Rightarrow>
                         if str_contains ''modal'' (str_lower expected_result) then
                           (case query_selector E
                                   ''.modal, .lightbox, [data-lightbox], [role=\"dialog\"]'' s3 of
                              (Inl e, s4) \<Rightarrow> (Inl e, s4)
                            | (Inr modal, s4) \<Rightarrow>
                                if modal then
                                  (case is_visible E
                                          ''.modal, .lightbox, [data-lightbox], [role=\"dialog\"]'' s4 of
                                     (Inl e, s5) \<Rightarrow> (Inl e, s5)
                                   | (Inr visible, s5) \<Rightarrow>
                                       if visible then
                                         (Inr (create_result E s5 repo ''click_interaction'' 1
                                                 ''Modal/lightbox opened on click'' ''''), s5)
                                       else unclear s5)
                                else unclear s4)
                         else unclear s3)))"

definition check_click_interaction :: "'s engine \<Rightarrow> check \<Rightarrow> repo_row \<Rightarrow> 's \<Rightarrow> result_row \<times> 's" where
  "check_click_interaction E chk repo s =
     (case check_click_interaction_try E chk repo s of
        (Inr r, s1) \<Rightarrow> (r, s1)
      | (Inl e, s1) \<Rightarrow> (create_result E s1 repo ''click_interaction'' 0 (''Error: '' @ e) '''', s1))"

text \<open>
  \<open>_check_responsive\<close>: the loop \<open>for width in breakpoints\<close> collecting \<open>scores\<close>, the
  \<open>try\<close> block with the average, the method.
\<close>

fun responsive_loop ::
  "'s engine \<Rightarrow> int list \<Rightarrow> rat list \<Rightarrow> 's \<Rightarrow> (string + rat list) \<times> 's" where
  "responsive_loop E [] scores s = (Inr scores, s)"
| "responsive_loop E (width # rest) scores s =
     (case set_viewport_size E width 800 s of
        (Inl e, s1) \<Rightarrow> (Inl e, s1)
      | (Inr u, s1) \<Rightarrow>
          (case wait_for_timeout E 500 s1 of
             (Inl e, s2) \<Rightarrow> (Inl e, s2)
           | (Inr u', s2) \<Rightarrow>
               (case query_selector E ''body'' s2 of
                  (Inl e, s3) \<Rightarrow> (Inl e, s3)
                | (Inr body, s3) \<Rightarrow>
                    if body then
                      (case bounding_box_width E ''body'' s3 of
                         (Inl e, s4) \<Rightarrow> (Inl e, s4)
                       | (Inr box, s4) \<Rightarrow>
                           (case box of
                              Some w \<Rightarrow>
                                if w > 0 then responsive_loop E rest (scores @ [1]) s4
                                else responsive_loop E rest (scores @ [0]) s4
                            | None \<Rightarrow> responsive_loop E rest (scores @ [0]) s4))
                    else responsive_loop E rest scores s3)))"

definition check_responsive_try ::
  "'s engine \<Rightarrow> check \<Rightarrow> repo_row \<Rightarrow> 's \<Rightarrow> (string + result_row) \<times> 's" where
  "check_responsive_try E chk repo s =
     (let breakpoints = (case c_breakpoints chk of None \<Rightarrow> [768, 1024] | Some b \<Rightarrow> b) in
      case responsive_loop E breakpoints [] s of
        (Inl e, s1) \<Rightarrow> (Inl e, s1)
      | (Inr scores, s1) \<Rightarrow>
          let avg_score = (if scores \<noteq> [] then sum_list scores / rat_of_nat (length scores) else 0)
          in (Inr (create_result E s1 repo ''responsive_design'' avg_score
                     (''Responsive at '' @ str_nat (length (filter (\<lambda>x. x > 0) scores)) @ ''/''
                        @ str_nat (length breakpoints) @ '' breakpoints'') ''''), s1))"

definition check_responsive :: "'s engine \<Rightarrow> check \<Rightarrow> repo_row \<Rightarrow> 's \<Rightarrow> result_row \<times> 's" where
  "check_responsive E chk repo s =
     (case check_responsive_try E chk repo s of
        (Inr r, s1) \<Rightarrow> (r, s1)
      | (Inl e, s1) \<Rightarrow> (create_result E s1 repo ''responsive_design'' 0 (''Error: '' @ e) '''', s1))"

text \<open>
  \<open>_run_single_check\<close>.  Its \<open>try\<close> block calls the method for the check's type and
  returns \<open>None\<close> for any other type; the four methods catch every exception themselves,
  so the block raises nothing that its own \<open>except\<close> clause (a \<open>check_<type>\<close> result with
  score 0) would have to take.
\<close>

definition run_single_check_try ::
  "'s engine \<Rightarrow> check \<Rightarrow> repo_row \<Rightarrow> 's \<Rightarrow> (string + result_row option) \<times> 's" where
  "run_single_check_try E chk repo s =
     (let check_type = get_type chk in
      if check_type = ''element_exists'' then
        (case check_element_exists E chk repo s of (r, s1) \<Rightarrow> (Inr (Some r), s1))
      else if check_type = ''button_exists'' then
        (case check_button_exists E chk repo s of (r, s1) \<Rightarrow> (Inr (Some r), s1))
      else if check_type = ''click_interaction'' then
        (case check_click_interaction E chk repo s of (r, s1) \<Rightarrow> (Inr (Some r), s1))
      else if check_type = ''responsive_check'' then
        (case check_responsive E chk repo s of (r, s1) \<Rightarrow> (Inr (Some r), s1))
      else (Inr None, s))"

definition run_single_check ::
  "'s engine \<Rightarrow> check \<Rightarrow> repo_row \<Rightarrow> 's \<Rightarrow> result_row option \<times> 's" where
  "run_single_check E chk repo s =
     (case run_single_check_try E chk repo s of
        (Inr r, s1) \<Rightarrow> (r, s1)
      | (Inl e, s1) \<Rightarrow>
          (Some (create_result E s1 repo (''check_'' @ get_type chk) 0 (''Error: '' @ e) ''''), s1))"

text \<open>
  The loop \<open>for check in checks\<close> of \<open>run_playwright_checks\<close>: a result that is not \<open>None\<close>
  is appended.
\<close>

fun run_checks :: "'s engine \<Rightarrow> check list \<Rightarrow> repo_row \<Rightarrow> 's \<Rightarrow> result_row list \<times> 's" where
  "run_checks E [] repo s = ([], s)"
| "run_checks E (chk # rest) repo s =
     (case run_single_check E chk repo s of
        (r, s1) \<Rightarrow>
          (case run_checks E rest repo s1 of
             (rs, s2) \<Rightarrow> ((case r of None \<Rightarrow> rs | Some x \<Rightarrow> x # rs), s2)))"

text \<open>
  \<open>_http_run_single_check\<close>: its \<open>try\<close> block, then the method with the \<open>except\<close> clause.
  The static page does not change, so the state is only read, for the clock.
\<close>

definition http_run_single_check_try ::
  "'s engine \<Rightarrow> 's \<Rightarrow> soup \<Rightarrow> check \<Rightarrow> repo_row \<Rightarrow> string + result_row option" where
  "http_run_single_check_try E s sp chk repo =
     (let check_type = get_type chk in
      if check_type = ''element_exists'' then
        (let selector = get_selector chk in
         case soup_select sp selector of
           Inl e \<Rightarrow> Inl e
         | Inr count \<Rightarrow>
             let min_count = get_min_count chk;
                 score = (if int count \<ge> min_count then 1 else 0)
             in Inr (Some (create_result E s repo (''element_'' @ take 20 selector) score
                  (''Found '' @ str_nat count @ '' elements (expected >='' @ str_int min_count @ '')'')
                  '''')))
      else if check_type = ''button_exists'' then
        (let text_options = get_text_options chk;
             found = list_ex (\<lambda>t. list_ex (\<lambda>b_text. str_contains (str_lower t) (str_lower b_text))
                                      (soup_buttons sp)) text_options;
             score = (if found then 1 else 0);
             reason = (if found
                       then ''Button with text '' @ py_repr (JList (map JStr text_options)) @ '' found''
                       else ''No button found with text: '' @ py_repr (JList (map JStr text_options)))
         in Inr (Some (create_result E s repo ''button_check'' score reason '''')))
      else if check_type = ''responsive_check'' then
        Inr (Some (create_result E s repo ''responsive_design'' (1 / 2)
                     ''Responsive check skipped (HTTP fallback)'' ''''))
      else if check_type = ''click_interaction'' then
        Inr (Some (create_result E s repo ''click_interaction'' (1 / 2)
                     ''Click interaction skipped (no JS in HTTP fallback)'' ''''))
      else Inr None)"

definition http_run_single_check ::
  "'s engine \<Rightarrow> 's \<Rightarrow> soup \<Rightarrow> check \<Rightarrow> repo_row \<Rightarrow> result_row option" where
  "http_run_single_check E s sp chk repo =
     (case http_run_single_check_try E s sp chk repo of
        Inr r \<Rightarrow> r
      | Inl e \<Rightarrow>
          Some (create_result E s repo (''http_check_'' @ get_type chk) 0 (''Error: '' @ e) ''''))"

text \<open>The loop \<open>for check in checks\<close> of \<open>_http_fallback_checks\<close>.\<close>

fun http_run_checks ::
  "'s engine \<Rightarrow> 's \<Rightarrow> soup \<Rightarrow> check list \<Rightarrow> repo_row \<Rightarrow> result_row list" where
  "http_run_checks E s sp [] repo = []"
| "http_run_checks E s sp (chk # rest) repo =
     (case http_run_single_check E s sp chk repo of
        None \<Rightarrow> http_run_checks E s sp rest repo
      | Some r \<Rightarrow> r # http_run_checks E s sp rest repo)"

text \<open>\<open>_http_fallback_checks\<close>\<close>

definition http_fallback_checks ::
  "'s engine \<Rightarrow> string \<Rightarrow> check list \<Rightarrow> repo_row \<Rightarrow> 's \<Rightarrow> result_row list \<times> 's" where
  "http_fallback_checks E pages_url checks repo s =
     (case requests_get E pages_url s of
        (Inl e, s1) \<Rightarrow> ([create_result E s1 repo ''http_fallback'' 0 (''Error: '' @ e) ''''], s1)
      | (Inr (code, sp), s1) \<Rightarrow>
          if code \<noteq> 200 then
            ([create_result E s1 repo ''page_load'' 0 (''HTTP '' @ str_int code) ''''], s1)
          else (http_run_checks E s1 sp checks repo, s1))"

text \<open>
  \<open>run_playwright_checks\<close>.  \<open>decoded_checks\<close> is what the lookup of the repo's nonce and the
  decoding of the task's \<open>checks\<close> column give: \<open>None\<close> when no task is found.  A failure to
  launch falls back to the static backend; a failure of \<open>page.goto\<close> gives the single
  \<open>page_load\<close> result; the browser is closed on both ways out of the inner \<open>try\<close>.  Leaving
  the \<open>async with\<close> block is taken not to raise.
\<close>

definition run_playwright_checks ::
  "'s engine \<Rightarrow> check list option \<Rightarrow> repo_row \<Rightarrow> string \<Rightarrow> 's \<Rightarrow> result_row list \<times> 's" where
  "run_playwright_checks E decoded_checks repo pages_url s =
     (case decoded_checks of
        None \<Rightarrow> ([], s)
      | Some checks \<Rightarrow>
          if PLAYWRIGHT_AVAILABLE E then
            (case launch E s of
               (Inl e, s1) \<Rightarrow> http_fallback_checks E pages_url checks repo s1
             | (Inr u, s1) \<Rightarrow>
                 (case goto E pages_url s1 of
                    (Inl (PlaywrightTimeout e), s2) \<Rightarrow>
                      ([create_result E s2 repo ''page_load'' 0 ''Page failed to load: timeout'' ''''],
                       browser_close E s2)
                  | (Inl (GotoException e), s2) \<Rightarrow>
                      ([create_result E s2 repo ''page_load'' 0 (''Page failed to load: '' @ e) ''''],
                       browser_close E s2)
                  | (Inr u', s2) \<Rightarrow>
                      (case run_checks E checks repo s2 of
                         (rs, s3) \<Rightarrow> (rs, browser_close E s3))))
          else http_fallback_checks E pages_url checks repo s)"

section \<open>Conditions the statements use\<close>

text \<open>
  An answer after which \<open>post_task_to_student\<close> tries again or gives up: a status other
  than 200, a timeout or another exception of \<open>requests\<close>.
\<close>

definition retryable :: "post_outcome \<Rightarrow> bool" where
  "retryable out = (case out of Response code body \<Rightarrow> code \<noteq> 200 | RaisedException e \<Rightarrow> False | _ \<Rightarrow> True)"

text \<open>The status code a dispatch reports for its last answer: 0 when no response came.\<close>

definition final_status :: "post_outcome \<Rightarrow> int" where
  "final_status out = (case out of Response code body \<Rightarrow> code | _ \<Rightarrow> 0)"

text \<open>What \<open>random\<close> promises of its draw below \<open>n\<close>.\<close>

definition randbelow_in_range :: "'g pylib \<Rightarrow> bool" where
  "randbelow_in_range L \<longleftrightarrow> (\<forall>g n. 0 < n \<longrightarrow> fst (randbelow L g n) < n)"

text \<open>Every parameter of a configuration has at least one option.\<close>

definition config_ok :: "config \<Rightarrow> bool" where
  "config_ok c = (case cfg_params c of None \<Rightarrow> True | Some ps \<Rightarrow> list_all (\<lambda>(k, opts). opts \<noteq> []) ps)"

text \<open>
  What \<open>uuid.uuid4()\<close> promises: the nonces still to come differ from one another and
  from every nonce in the tasks table.
\<close>

definition nonces_fresh :: "database \<Rightarrow> ('g, 'a) pyworld_scheme \<Rightarrow> bool" where
  "nonces_fresh db w \<longleftrightarrow>
     (\<forall>k \<ge> uuid_reads w. \<forall>r \<in> set (tasks db). tk_nonce r \<noteq> uuids w k)
     \<and> (\<forall>j \<ge> uuid_reads w. \<forall>k \<ge> uuid_reads w. uuids w j = uuids w k \<longrightarrow> j = k)"

text \<open>What two runs of the generator are compared on: brief, attachments, checks and task id.\<close>

definition generated_content :: "task \<Rightarrow> string \<times> jv list \<times> jv list \<times> string" where
  "generated_content t = (task_brief t, task_attachments t, task_checks t, task_task t)"

text \<open>The check types the engine has a method for.\<close>

definition supported_type :: "check \<Rightarrow> bool" where
  "supported_type chk =
     (get_type chk \<in> set [''element_exists'', ''button_exists'', ''click_interaction'', ''responsive_check''])"

text \<open>A result whose score is a number from 0 to 1.\<close>

definition score_in_unit :: "result_row \<Rightarrow> bool" where
  "score_in_unit r = (case rs_score r of None \<Rightarrow> False | Some x \<Rightarrow> 0 \<le> x \<and> x \<le> 1)"

text \<open>
  The text of the exception that the \<open>try\<close> block of the method chosen for the check
  raises when run in state \<open>s\<close>, if it raises one.
\<close>

definition raised_in_check :: "'s engine \<Rightarrow> check \<Rightarrow> repo_row \<Rightarrow> 's \<Rightarrow> string option" where
  "raised_in_check E chk repo s =
     (let raised = (\<lambda>x. case x of (Inl e, s1) \<Rightarrow> Some e | (Inr r, s1) \<Rightarrow> None) in
      if get_type chk = ''element_exists'' then raised (check_element_exists_try E chk repo s)
      else if get_type chk = ''button_exists'' then raised (check_button_exists_try E chk repo s)
      else if get_type chk = ''click_interaction'' then raised (check_click_interaction_try E chk repo s)
      else if get_type chk = ''responsive_check'' then raised (check_responsive_try E chk repo s)
      else None)"

section \<open>Example inputs\<close>

text \<open>A collector that answers every POST with HTTP 500.\<close>

definition world_always_500 :: world where
  "world_always_500 =
     \<lparr>responses = (\<lambda>k. Response 500 ''Internal Server Error''), posted = [], slept = []\<rparr>"

text \<open>
  A stand-in for the library: digests that ignore their input and a generator that always
  draws 0.  The theorems hold for every library; this one evaluates the definitions.
\<close>

definition example_pylib :: "unit pylib" where
  "example_pylib =
     \<lparr>md5_hexdigest = (\<lambda>s. ''d41d8cd98f00b204e9800998ecf8427e''),
      sha256 = (\<lambda>s. push_bit 236 0xab12c),
      random_seed = (\<lambda>s. ()),
      randbelow = (\<lambda>g n. (0, g))\<rparr>"

text \<open>
  A ledger with one dispatched Round-1 task, its submission and one result, and a
  submission request that presents the task's nonce under another participant's email.
\<close>

definition example_task_row :: task_row where
  "example_task_row =
     \<lparr>tk_timestamp = ''2025-10-16T14:03:27'', tk_email = ''a@x.com'',
      tk_task = ''calculator-ab12c'', tk_round = 1, tk_nonce = ''nonce-0001'',
      tk_brief = ''Create a calculator web application'', tk_attachments = [],
      tk_checks = [JDict [(''type'', JStr ''element_exists''), (''selector'', JStr ''button''),
                          (''min_count'', JInt 15)]],
      tk_evaluation_url = ''http://localhost:8000/api/evaluation'',
      tk_endpoint = ''http://participant/endpoint'', tk_statuscode = Some 200,
      tk_error = None\<rparr>"

definition example_repo_row :: repo_row where
  "example_repo_row =
     \<lparr>rp_timestamp = ''2025-10-16T15:10:00'', rp_email = ''a@x.com'',
      rp_task = ''calculator-ab12c'', rp_round = 1, rp_nonce = ''nonce-0001'',
      rp_repo_url = ''https://github.com/a/calculator'', rp_commit_sha = ''abc123def456'',
      rp_pages_url = ''https://a.github.io/calculator/''\<rparr>"

definition example_result_row :: result_row where
  "example_result_row =
     \<lparr>rs_timestamp = ''2025-10-16T16:00:00'', rs_email = ''a@x.com'',
      rs_task = ''calculator-ab12c'', rs_round = 1,
      rs_repo_url = ''https://github.com/a/calculator'', rs_commit_sha = ''abc123def456'',
      rs_pages_url = ''https://a.github.io/calculator/'', rs_check = ''mit_license'',
      rs_score = Some 1, rs_reason = Some ''MIT LICENSE file found in root folder'',
      rs_logs = Some ''''\<rparr>"

definition db_dispatched :: database where
  "db_dispatched = \<lparr>tasks = [example_task_row], repos = [], results = []\<rparr>"

definition db_submitted :: database where
  "db_submitted = \<lparr>tasks = [example_task_row], repos = [example_repo_row], results = []\<rparr>"

definition db_evaluated :: database where
  "db_evaluated =
     \<lparr>tasks = [example_task_row], repos = [example_repo_row], results = [example_result_row]\<rparr>"

definition spoofed_request :: EvaluationRequest where
  "spoofed_request =
     \<lparr>rq_email = ''mallory@x.com'', rq_task = ''calculator-ab12c'', rq_round = 1,
      rq_nonce = ''nonce-0001'', rq_repo_url = ''https://github.com/mallory/calculator'',
      rq_commit_sha = ''0000000'', rq_pages_url = ''https://mallory.github.io/calculator/''\<rparr>"

text \<open>An evaluator that would report one result and leave a mark on the world.\<close>

definition example_evaluator :: "repo_row \<Rightarrow> database \<Rightarrow> nat \<Rightarrow> (string + result_row list) \<times> nat" where
  "example_evaluator repo db w = (Inr [example_result_row], Suc w)"

text \<open>
  A world where every participant endpoint answers HTTP 500, at 14:03:27 on 2025-10-16,
  and a batch of two submissions for an empty ledger.
\<close>

definition example_pyworld :: "unit pyworld" where
  "example_pyworld =
     \<lparr>responses = (\<lambda>k. Response 500 ''Internal Server Error''), posted = [], slept = [],
      clock = (\<lambda>k. \<lparr>dt_year = 2025, dt_month = 10, dt_day = 16, dt_hour = 14, dt_minute = 3,
                      dt_second = 27, dt_microsecond = 0\<rparr>),
      clock_reads = 0,
      uuids = (\<lambda>k. ''nonce-'' @ replicate k CHR ''x''),
      uuid_reads = 0,
      rng = ()\<rparr>"

definition example_submissions :: "submission list" where
  "example_submissions =
     [\<lparr>sub_timestamp = ''2025-10-16 13:00:00'', sub_email = ''a@x.com'',
       sub_endpoint = ''http://participant-a/endpoint'', sub_secret = ''secret-a''\<rparr>,
      \<lparr>sub_timestamp = ''2025-10-16 13:05:00'', sub_email = ''b@x.com'',
       sub_endpoint = ''http://participant-b/endpoint'', sub_secret = ''secret-b''\<rparr>]"

definition db_empty :: database where
  "db_empty = \<lparr>tasks = [], repos = [], results = []\<rparr>"

text \<open>
  A second run for the first participant, later in the same hour: other answers, other
  nonces, a clock that has been read before.
\<close>

definition example_pyworld_later :: "unit pyworld" where
  "example_pyworld_later =
     \<lparr>responses = (\<lambda>k. RaisedTimeout ''timed out''), posted = [(''http://other'', JDict [])], slept = [60],
      clock = (\<lambda>k. \<lparr>dt_year = 2025, dt_month = 10, dt_day = 16, dt_hour = 14, dt_minute = 59,
                      dt_second = 1, dt_microsecond = 250000\<rparr>),
      clock_reads = 7,
      uuids = (\<lambda>k. ''other-'' @ replicate k CHR ''y''),
      uuid_reads = 3,
      rng = ()\<rparr>"

definition example_submission :: submission where
  "example_submission =
     \<lparr>sub_timestamp = ''2025-10-16 13:00:00'', sub_email = ''a@x.com'',
      sub_endpoint = ''http://participant-a/endpoint'', sub_secret = ''secret-a''\<rparr>"

definition example_submission_again :: submission where
  "example_submission_again =
     \<lparr>sub_timestamp = ''2025-10-16 13:30:00'', sub_email = ''a@x.com'',
      sub_endpoint = ''http://participant-a/v2/endpoint'', sub_secret = ''secret-a''\<rparr>"

text \<open>
  A page on which no selector finds anything, loaded by a browser that starts, and the
  same page parsed by the static backend; an engine whose page has crashed, so that
  \<open>query_selector_all\<close> raises; and three checks of the catalog, by the keys the engine
  reads.
\<close>

definition blank_soup :: soup where
  "blank_soup = \<lparr>soup_select = (\<lambda>selector. Inr 0), soup_buttons = []\<rparr>"

definition blank_engine :: "unit engine" where
  "blank_engine =
     \<lparr>utcnow_iso = (\<lambda>s. ''2025-10-16T16:00:00''),
      PLAYWRIGHT_AVAILABLE = True,
      launch = (\<lambda>s. (Inr (), s)),
      goto = (\<lambda>url s. (Inr (), s)),
      browser_close = (\<lambda>s. s),
      query_selector_all = (\<lambda>selector s. (Inr 0, s)),
      query_selector = (\<lambda>selector s. (Inr False, s)),
      element_click = (\<lambda>selector s. (Inr (), s)),
      wait_for_timeout = (\<lambda>ms s. (Inr (), s)),
      is_visible = (\<lambda>selector s. (Inr False, s)),
      set_viewport_size = (\<lambda>width height s. (Inr (), s)),
      bounding_box_width = (\<lambda>selector s. (Inr None, s)),
      requests_get = (\<lambda>url s. (Inr (200, blank_soup), s))\<rparr>"

definition crashing_engine :: "unit engine" where
  "crashing_engine =
     blank_engine\<lparr>query_selector_all :=
       (\<lambda>selector s. (Inl ''Target page, context or browser has been closed'', s))\<rparr>"

definition element_check_example :: check where
  "element_check_example =
     \<lparr>c_type = Some ''element_exists'', c_selector = Some ''button'', c_min_count = Some 15,
      c_text = None, c_result = None, c_breakpoints = None\<rparr>"

definition click_sequence_check :: check where
  "click_sequence_check =
     \<lparr>c_type = Some ''click_sequence'', c_selector = None, c_min_count = None,
      c_text = None, c_result = Some ''8'', c_breakpoints = None\<rparr>"

definition responsive_check_example :: check where
  "responsive_check_example =
     \<lparr>c_type = Some ''responsive_check'', c_selector = None, c_min_count = None,
      c_text = None, c_result = None, c_breakpoints = Some [768, 1024]\<rparr>"

definition example_checks :: "check list" where
  "example_checks = [element_check_example, click_sequence_check, responsive_check_example]"

section \<open>Properties of the Result Notifier\<close>

lemma upt_8: "[0..<8] = [0, 1, 2, 3, 4, 5, 6, 7::nat]"
  by code_simp

lemma notify_attempts_success:
  "success (fst (notify_attempts self url payload as w)) \<Longrightarrow>
   (\<exists>body. responses w (length (posted (snd (notify_attempts self url payload as w))) - 1) = Response 200 body)
   \<and> status_code (fst (notify_attempts self url payload as w)) = Some 200"
proof (induction as arbitrary: w)
  case Nil
  then show ?case by simp
next
  case (Cons a as)
  let ?w1 = "w\<lparr>posted := posted w @ [(url, payload)]\<rparr>"
  let ?w2 = "time_sleep (base_delay self * 2 ^ a) ?w1"
  have r2: "responses ?w2 = responses w" by (simp add: time_sleep_def)
  show ?case
  proof (cases "responses w (length (posted w))")
    case (Response code body)
    show ?thesis
    proof (cases "code = 200")
      case True
      then show ?thesis using Response by (simp add: requests_post_def)
    next
      case False
      show ?thesis
      proof (cases "a \<ge> max_retries self")
        case True
        then show ?thesis using Response False Cons.prems by (simp add: requests_post_def Let_def)
      next
        case False
        have eq: "notify_attempts self url payload (a # as) w = notify_attempts self url payload as ?w2"
          using Response \<open>code \<noteq> 200\<close> False by (simp add: requests_post_def Let_def)
        from Cons.IH[of ?w2] Cons.prems show ?thesis unfolding eq r2 by simp
      qed
    qed
  next
    case (RaisedTimeout e)
    show ?thesis
    proof (cases "a \<ge> max_retries self")
      case True
      then show ?thesis using RaisedTimeout Cons.prems by (simp add: requests_post_def)
    next
      case False
      have eq: "notify_attempts self url payload (a # as) w = notify_attempts self url payload as ?w2"
        using RaisedTimeout False by (simp add: requests_post_def)
      from Cons.IH[of ?w2] Cons.prems show ?thesis unfolding eq r2 by simp
    qed
  next
    case (RaisedConnectionError e)
    show ?thesis
    proof (cases "a \<ge> max_retries self")
      case True
      then show ?thesis using RaisedConnectionError Cons.prems by (simp add: requests_post_def)
    next
      case False
      have eq: "notify_attempts self url payload (a # as) w = notify_attempts self url payload as ?w2"
        using RaisedConnectionError False by (simp add: requests_post_def)
      from Cons.IH[of ?w2] Cons.prems show ?thesis unfolding eq r2 by simp
    qed
  next
    case (RaisedRequestException e)
    show ?thesis
    proof (cases "a \<ge> max_retries self")
      case True
      then show ?thesis using RaisedRequestException Cons.prems by (simp add: requests_post_def)
    next
      case False
      have eq: "notify_attempts self url payload (a # as) w = notify_attempts self url payload as ?w2"
        using RaisedRequestException False by (simp add: requests_post_def)
      from Cons.IH[of ?w2] Cons.prems show ?thesis unfolding eq r2 by simp
    qed
  next
    case (RaisedException e)
    show ?thesis
    proof (cases "a \<ge> max_retries self")
      case True
      then show ?thesis using RaisedException Cons.prems by (simp add: requests_post_def)
    next
      case False
      have eq: "notify_attempts self url payload (a # as) w = notify_attempts self url payload as ?w2"
        using RaisedException False by (simp add: requests_post_def)
      from Cons.IH[of ?w2] Cons.prems show ?thesis unfolding eq r2 by simp
    qed
  qed
qed

lemma notify_all_500:
  assumes "\<forall>k. \<exists>body. responses w k = Response 500 body"
  shows "length (posted (snd (notify_attempts EvaluationNotifier url payload [0..<8] w))) = length (posted w) + 8
       \<and> slept (snd (notify_attempts EvaluationNotifier url payload [0..<8] w)) = slept w @ [1, 2, 4, 8, 16, 32, 64]
       \<and> \<not> success (fst (notify_attempts EvaluationNotifier url payload [0..<8] w))
       \<and> attempts (fst (notify_attempts EvaluationNotifier url payload [0..<8] w)) = 8"
proof -
  obtain b where b: "\<And>k. responses w k = Response 500 (b k)"
    using assms by metis
  show ?thesis
    by (simp add: EvaluationNotifier_def upt_8 requests_post_def time_sleep_def Let_def b)
qed

lemma notify_first_200:
  assumes "responses w (length (posted w)) = Response 200 body"
  shows "success (fst (notify_attempts EvaluationNotifier url payload [0..<8] w))
       \<and> attempts (fst (notify_attempts EvaluationNotifier url payload [0..<8] w)) = 1
       \<and> slept (snd (notify_attempts EvaluationNotifier url payload [0..<8] w)) = slept w
       \<and> length (posted (snd (notify_attempts EvaluationNotifier url payload [0..<8] w))) = length (posted w) + 1"
  using assms
  by (simp add: EvaluationNotifier_def upt_8 requests_post_def time_sleep_def Let_def)

text \<open>
  C3.  When every POST of the notifier is answered with HTTP 500, \<open>notify\<close> makes exactly
  8 POSTs, sleeps 1, 2, 4, 8, 16, 32 and 64 seconds between them (127 seconds in all, none
  after the last attempt) and returns \<open>success = False\<close> with \<open>attempts = 8\<close>.  When the
  first POST is answered with HTTP 200 it returns \<open>success = True\<close> with \<open>attempts = 1\<close>,
  after one POST and no sleep.  Whatever the answers are, \<open>success\<close> is returned only
  when the last POST made was answered with HTTP 200.
\<close>

theorem C3_notify_retry_bound:
  "(let r = notify EvaluationNotifier url repo_url commit_sha pages_url nonce email task round_num w in
     ((\<forall>k. \<exists>body. responses w k = Response 500 body) \<longrightarrow>
          length (posted (snd r)) = length (posted w) + 8
        \<and> slept (snd r) = slept w @ [1, 2, 4, 8, 16, 32, 64]
        \<and> 1 \<le> sum_list [1, 2, 4, 8, 16, 32, 64::nat] \<and> sum_list [1, 2, 4, 8, 16, 32, 64::nat] \<le> 127
        \<and> \<not> success (fst r) \<and> attempts (fst r) = 8)
   \<and> ((\<exists>body. responses w (length (posted w)) = Response 200 body) \<longrightarrow>
          success (fst r) \<and> attempts (fst r) = 1
        \<and> slept (snd r) = slept w
        \<and> length (posted (snd r)) = length (posted w) + 1)
   \<and> (success (fst r) \<longrightarrow>
          (\<exists>body. responses w (length (posted (snd r)) - 1) = Response 200 body)
        \<and> status_code (fst r) = Some 200))"
proof -
  let ?p = "notify_payload repo_url commit_sha pages_url nonce email task round_num"
  let ?r = "notify_attempts EvaluationNotifier url ?p [0..<8] w"
  have n: "notify EvaluationNotifier url repo_url commit_sha pages_url nonce email task round_num w = ?r"
    by (simp add: notify_def EvaluationNotifier_def)
  show ?thesis
    unfolding Let_def n
  proof (intro conjI impI)
    assume a: "\<forall>k. \<exists>body. responses w k = Response 500 body"
    from notify_all_500[OF a, of url ?p]
    show "length (posted (snd ?r)) = length (posted w) + 8"
      and "slept (snd ?r) = slept w @ [1, 2, 4, 8, 16, 32, 64]"
      and "\<not> success (fst ?r)" and "attempts (fst ?r) = 8"
      by simp_all
  next
    assume "\<exists>body. responses w (length (posted w)) = Response 200 body"
    then obtain body where b: "responses w (length (posted w)) = Response 200 body" ..
    from notify_first_200[OF b, of url ?p]
    show "success (fst ?r)" and "attempts (fst ?r) = 1" and "slept (snd ?r) = slept w"
      and "length (posted (snd ?r)) = length (posted w) + 1"
      by simp_all
  next
    assume s: "success (fst ?r)"
    from notify_attempts_success[of EvaluationNotifier url ?p "[0..<8]" w] s
    show "\<exists>body. responses w (length (posted (snd ?r)) - 1) = Response 200 body"
      and "status_code (fst ?r) = Some 200"
      by simp_all
  qed simp_all
qed

theorem C3_notify_retry_bound_witness:
  "(\<forall>k. \<exists>body. responses world_always_500 k = Response 500 body)
   \<and> length (posted (snd (notify EvaluationNotifier ''http://localhost:8000/api/evaluation''
         ''https://github.com/test/repo'' ''abc123def456'' ''https://test.github.io/repo/''
         ''test-nonce-002'' ''test@example.com'' ''test-task'' 1 world_always_500))) = 8
   \<and> slept (snd (notify EvaluationNotifier ''http://localhost:8000/api/evaluation''
         ''https://github.com/test/repo'' ''abc123def456'' ''https://test.github.io/repo/''
         ''test-nonce-002'' ''test@example.com'' ''test-task'' 1 world_always_500))
       = [1, 2, 4, 8, 16, 32, 64]
   \<and> \<not> success (fst (notify EvaluationNotifier ''http://localhost:8000/api/evaluation''
         ''https://github.com/test/repo'' ''abc123def456'' ''https://test.github.io/repo/''
         ''test-nonce-002'' ''test@example.com'' ''test-task'' 1 world_always_500))"
  using C3_notify_retry_bound
    [of "''http://localhost:8000/api/evaluation''" "''https://github.com/test/repo''"
        "''abc123def456''" "''https://test.github.io/repo/''" "''test-nonce-002''"
        "''test@example.com''" "''test-task''" 1 world_always_500]
  by (simp add: world_always_500_def Let_def)

section \<open>Properties of the task id\<close>

lemma digit_char_hex: "digit_char n \<in> set ''0123456789abcdef''"
  unfolding digit_char_def by (rule nth_mem) simp

lemma hexdigest_chars: "set (hexdigest h) \<subseteq> set ''0123456789abcdef''"
  unfolding hexdigest_def using digit_char_hex by auto

lemma length_hexdigest: "length (hexdigest h) = 64"
  by (simp add: hexdigest_def)

lemma dash_not_in_hash: "CHR ''-'' \<notin> set (take 5 (hexdigest h))"
proof
  assume "CHR ''-'' \<in> set (take 5 (hexdigest h))"
  then have "CHR ''-'' \<in> set (hexdigest h)" by (rule in_set_takeD)
  then have "CHR ''-'' \<in> set ''0123456789abcdef''" using hexdigest_chars by blast
  then show False by simp
qed

lemma str_split_nonempty: "str_split c s \<noteq> []"
  by (induction s) (auto split: list.splits)

lemma str_split_no_sep: "c \<notin> set s \<Longrightarrow> str_split c s = [s]"
  by (induction s) auto

lemma str_split_append: "c \<notin> set b \<Longrightarrow> str_split c (a @ c # b) = str_split c a @ [b]"
proof (induction a)
  case Nil
  then show ?case by (simp add: str_split_no_sep)
next
  case (Cons x a)
  then show ?case using str_split_nonempty[of c a]
    by (cases "str_split c a") auto
qed

lemma str_join_Cons: "str_join sep ((x # p) # ps) = x # str_join sep (p # ps)"
  by (cases ps) simp_all

lemma str_join_split: "str_join [c] (str_split c s) = s"
proof (induction s)
  case Nil
  then show ?case by simp
next
  case (Cons x s)
  show ?case
  proof (cases "x = c")
    case True
    then show ?thesis using Cons str_split_nonempty[of c s]
      by (cases "str_split c s") auto
  next
    case False
    then show ?thesis using Cons str_split_nonempty[of c s]
      by (cases "str_split c s") (auto simp: str_join_Cons)
  qed
qed

lemma get_template_from_suffixed:
  assumes "CHR ''-'' \<notin> set h"
  shows "get_template_from_task_id (template_id @ ''-'' @ h) = get_template template_id"
proof -
  have s: "str_split CHR ''-'' (template_id @ CHR ''-'' # h) = str_split CHR ''-'' template_id @ [h]"
    using assms by (rule str_split_append)
  have l: "2 \<le> length (str_split CHR ''-'' template_id @ [h])"
    using str_split_nonempty[of "CHR ''-''" template_id]
    by (cases "str_split CHR ''-'' template_id") auto
  show ?thesis
    using l by (simp add: get_template_from_task_id_def Let_def s
        str_join_split[of "CHR ''-''", simplified])
qed

lemma get_template_from_generated_id:
  "get_template_from_task_id (generate_task_id L template_id brief attachments) = get_template template_id"
  unfolding generate_task_id_def Let_def
  by (rule get_template_from_suffixed) (rule dash_not_in_hash)

lemma tpl_id_image_viewer: "tpl_id template_image_viewer = ''image-viewer''"
  by (simp add: template_image_viewer_def)

lemma tpl_id_calculator: "tpl_id template_calculator = ''calculator''"
  by (simp add: template_calculator_def)

lemma tpl_id_todo_list: "tpl_id template_todo_list = ''todo-list''"
  by (simp add: template_todo_list_def)

lemma tpl_id_weather_dashboard: "tpl_id template_weather_dashboard = ''weather-dashboard''"
  by (simp add: template_weather_dashboard_def)

lemma tpl_id_quiz_app: "tpl_id template_quiz_app = ''quiz-app''"
  by (simp add: template_quiz_app_def)

lemma catalog_ids: "map_of TEMPLATES k = Some t \<Longrightarrow> tpl_id t = k"
  by (auto simp: TEMPLATES_def tpl_id_image_viewer tpl_id_calculator tpl_id_todo_list
      tpl_id_weather_dashboard tpl_id_quiz_app split: if_splits)

text \<open>
  C7.  For every template id of the catalog and every brief and attachments, parsing the
  generated task id recovers the catalog's template of that id: the id is split at its
  last \<open>-\<close>, because the five hexadecimal digits of the hash hold no \<open>-\<close>, also when the
  template id itself has one.
\<close>

theorem C7_task_id_round_trip:
  assumes "template_id \<in> set (map fst TEMPLATES)"
  shows "\<exists>t. get_template_from_task_id (generate_task_id L template_id brief attachments) = Some t
           \<and> map_of TEMPLATES template_id = Some t \<and> tpl_id t = template_id"
proof -
  from assms obtain t where t: "map_of TEMPLATES template_id = Some t"
    by (metis map_of_eq_None_iff not_Some_eq set_map)
  then show ?thesis
    using catalog_ids[OF t] by (simp add: get_template_from_generated_id get_template_def)
qed

theorem C7_task_id_round_trip_witness:
  "''image-viewer'' \<in> set (map fst TEMPLATES)
   \<and> get_template_from_task_id
        (generate_task_id example_pylib ''image-viewer'' ''Create a simple image viewer'' [])
       = Some template_image_viewer"
proof -
  have m: "''image-viewer'' \<in> set (map fst TEMPLATES)"
    by (simp add: TEMPLATES_def)
  have g: "map_of TEMPLATES ''image-viewer'' = Some template_image_viewer"
    by (simp add: TEMPLATES_def)
  from C7_task_id_round_trip [OF m, of example_pylib "''Create a simple image viewer''" "[]"] g m
  show ?thesis by auto
qed

section \<open>Properties of the Ledger's guards\<close>

text \<open>
  C4.  A submission request whose nonce resolves to no Task is rejected with HTTP 400 and
  the ledger is left as it was.  A request whose nonce resolves to a Task whose email,
  task id or round differs from the request's is rejected with HTTP 400 as well, and the
  ledger, so also its repos table, is left as it was.
\<close>

theorem C4_submission_integrity:
  "(get_task_by_nonce db (rq_nonce request) = None \<longrightarrow>
      evaluation_endpoint now1 now2 request db
        = (Inl (HTTPException 400 ''Invalid nonce. Task not found.''), db))
   \<and> (\<forall>task. get_task_by_nonce db (rq_nonce request) = Some task
         \<and> (tk_email task \<noteq> rq_email request \<or> tk_task task \<noteq> rq_task request
              \<or> tk_round task \<noteq> rq_round request) \<longrightarrow>
         (\<exists>detail. fst (evaluation_endpoint now1 now2 request db) = Inl (HTTPException 400 detail))
         \<and> snd (evaluation_endpoint now1 now2 request db) = db
         \<and> repos (snd (evaluation_endpoint now1 now2 request db)) = repos db)"
  by (auto simp: evaluation_endpoint_def)

theorem C4_submission_integrity_witness:
  "get_task_by_nonce db_dispatched (rq_nonce spoofed_request) = Some example_task_row
   \<and> tk_email example_task_row \<noteq> rq_email spoofed_request
   \<and> (\<exists>detail. fst (evaluation_endpoint ''2025-10-16T15:10:00'' ''2025-10-16T15:10:01''
                        spoofed_request db_dispatched) = Inl (HTTPException 400 detail))
   \<and> repos (snd (evaluation_endpoint ''2025-10-16T15:10:00'' ''2025-10-16T15:10:01''
                        spoofed_request db_dispatched)) = []"
proof -
  have t: "get_task_by_nonce db_dispatched (rq_nonce spoofed_request) = Some example_task_row"
    by (simp add: get_task_by_nonce_def db_dispatched_def spoofed_request_def example_task_row_def)
  have m: "tk_email example_task_row \<noteq> rq_email spoofed_request"
    by (simp add: spoofed_request_def example_task_row_def)
  have r: "repos db_dispatched = []"
    by (simp add: db_dispatched_def)
  from C4_submission_integrity
    [of db_dispatched spoofed_request "''2025-10-16T15:10:00''" "''2025-10-16T15:10:01''"] t m r
  show ?thesis by metis
qed

text \<open>
  C5.  When a result row exists for the (email, task, round) of every repo the evaluation
  loop is run over, the loop skips them all: the evaluator is not called (the world is
  untouched), the ledger is unchanged, so no result row is added, and neither counter
  moves.
\<close>

theorem C5_single_evaluation:
  assumes "\<forall>r \<in> set rs. result_exists db (rp_email r) (rp_task r) (rp_round r)"
  shows "evaluate_repos evaluate_repo rs db w evaluated failed = (db, w, evaluated, failed)
       \<and> results (fst (evaluate_repos evaluate_repo rs db w evaluated failed)) = results db"
  using assms by (induction rs) auto

theorem C5_single_evaluation_witness:
  "result_exists db_evaluated (rp_email example_repo_row) (rp_task example_repo_row)
     (rp_round example_repo_row)
   \<and> evaluate_repos example_evaluator [example_repo_row] db_evaluated 0 0 0
       = (db_evaluated, 0, 0, 0)
   \<and> results (fst (evaluate_repos example_evaluator [example_repo_row] db_evaluated 0 0 0))
       = [example_result_row]"
proof -
  have e: "result_exists db_evaluated (rp_email example_repo_row) (rp_task example_repo_row)
     (rp_round example_repo_row)"
    by (simp add: result_exists_def db_evaluated_def example_repo_row_def example_result_row_def)
  then have a: "\<forall>r \<in> set [example_repo_row].
      result_exists db_evaluated (rp_email r) (rp_task r) (rp_round r)"
    by simp
  have r: "results db_evaluated = [example_result_row]"
    by (simp add: db_evaluated_def)
  from C5_single_evaluation [OF a, of example_evaluator 0 0 0] e r
  show ?thesis by simp
qed

lemma no_critical_failure_iff:
  "no_critical_failure rs \<longleftrightarrow>
     \<not> (\<exists>r \<in> set rs. rs_check r \<in> set critical_checks \<and> rs_score r = Some 0)"
  by (induction rs) auto

text \<open>
  C10.  Take a Round-1 repo record (its email is not empty: the ingestion endpoint accepts
  only an \<open>EmailStr\<close>) with no Round-2 task and no Round-2 repo for its (email, task).
  If the ledger has no Round-1 result for that email, \<open>should_generate_round2\<close> returns
  \<open>True\<close>.  It returns \<open>False\<close> exactly when some Round-1 result of that email is named
  \<open>mit_license\<close> or \<open>page_load\<close> and has score 0.
\<close>

theorem C10_round2_eligibility:
  assumes "\<not> task_exists db (rp_email repo) (rp_task repo) 2"
    and "\<not> repo_exists db (rp_email repo) (rp_task repo) 2"
    and "rp_email repo \<noteq> []"
  shows "((\<forall>r \<in> set (results db). \<not> (rs_email r = rp_email repo \<and> rs_round r = 1))
            \<longrightarrow> should_generate_round2 repo db)
       \<and> (\<not> should_generate_round2 repo db \<longleftrightarrow>
            (\<exists>r \<in> set (results db). rs_email r = rp_email repo \<and> rs_round r = 1
               \<and> (rs_check r = ''mit_license'' \<or> rs_check r = ''page_load'')
               \<and> rs_score r = Some 0))"
  using assms
  apply (simp add: should_generate_round2_def Let_def get_results_def no_critical_failure_iff
      critical_checks_def filter_empty_conv)
  apply auto
  done

theorem C10_round2_eligibility_witness:
  "\<not> task_exists db_submitted (rp_email example_repo_row) (rp_task example_repo_row) 2
   \<and> \<not> repo_exists db_submitted (rp_email example_repo_row) (rp_task example_repo_row) 2
   \<and> rp_email example_repo_row \<noteq> []
   \<and> results db_submitted = []
   \<and> should_generate_round2 example_repo_row db_submitted"
proof -
  have t: "\<not> task_exists db_submitted (rp_email example_repo_row) (rp_task example_repo_row) 2"
    by (simp add: task_exists_def db_submitted_def example_task_row_def)
  have p: "\<not> repo_exists db_submitted (rp_email example_repo_row) (rp_task example_repo_row) 2"
    by (simp add: repo_exists_def db_submitted_def example_repo_row_def)
  have e: "rp_email example_repo_row \<noteq> []"
    by (simp add: example_repo_row_def)
  have r: "results db_submitted = []"
    by (simp add: db_submitted_def)
  from C10_round2_eligibility [OF t p e] r t p e
  show ?thesis by simp
qed

section \<open>Properties of the Dispatch Engine\<close>

lemma upt_3: "[0..<3] = [0, 1, 2::nat]"
  by code_simp

lemma post_attempts_3_sleeps:
  "\<exists>ds. slept (snd (post_attempts 3 [60, 180, 600] 300 url payload [0, 1, 2] w)) = slept w @ ds
        \<and> (ds = [] \<or> ds = [60] \<or> ds = [60, 180])"
  by (simp add: requests_post_def time_sleep_def Let_def split: post_outcome.split)

lemma dispatch_sleeps_bound:
  assumes "ds = [] \<or> ds = [60] \<or> ds = [60, 180::nat]"
  shows "600 \<notin> set ds \<and> length ds \<le> 2 \<and> sum_list ds \<le> 240"
  using assms by auto

text \<open>
  C9.  Whatever the POSTs of one dispatch meet, \<open>post_task_to_student\<close> (of round1.py and
  of round2.py) calls \<open>time.sleep\<close> not at all, once with 60, or twice with 60 and then
  180: at most two sleeps, never the 600 of the schedule, at most 240 seconds in all.
\<close>

theorem C9_dispatch_sleeps:
  "(\<exists>ds. slept (snd (post_task_to_student t w)) = slept w @ ds
        \<and> (ds = [] \<or> ds = [60] \<or> ds = [60, 180])
        \<and> 600 \<notin> set ds \<and> length ds \<le> 2 \<and> sum_list ds \<le> 240)
   \<and> (\<exists>ds. slept (snd (round2_post_task_to_student t w)) = slept w @ ds
        \<and> (ds = [] \<or> ds = [60] \<or> ds = [60, 180])
        \<and> 600 \<notin> set ds \<and> length ds \<le> 2 \<and> sum_list ds \<le> 240)"
proof -
  obtain ds where ds: "slept (snd (post_attempts 3 [60, 180, 600] 300 (task_endpoint t) (task_payload t) [0, 1, 2] w))
      = slept w @ ds" "ds = [] \<or> ds = [60] \<or> ds = [60, 180]"
    using post_attempts_3_sleeps by blast
  have r1: "post_task_to_student t w = post_attempts 3 [60, 180, 600] 300 (task_endpoint t) (task_payload t) [0, 1, 2] w"
    by (simp add: post_task_to_student_def MAX_RETRIES_def RETRY_DELAYS_def REQUEST_TIMEOUT_def upt_3)
  have r2: "round2_post_task_to_student t w
      = post_attempts 3 [60, 180, 600] 300 (task_endpoint t) (task_payload t) [0, 1, 2] w"
    by (simp add: round2_post_task_to_student_def round2_MAX_RETRIES_def round2_RETRY_DELAYS_def
        round2_REQUEST_TIMEOUT_def upt_3)
  from ds dispatch_sleeps_bound[OF ds(2)] show ?thesis
    unfolding r1 r2 by blast
qed

lemma post_attempts_3_posts:
  "length (posted (snd (post_attempts 3 [60, 180, 600] 300 url payload [0, 1, 2] w))) \<le> length (posted w) + 3
   \<and> length (posted w) < length (posted (snd (post_attempts 3 [60, 180, 600] 300 url payload [0, 1, 2] w)))"
  by (simp add: requests_post_def time_sleep_def Let_def split: post_outcome.split)

lemma post_attempts_world:
  "\<exists>ps ss. snd (post_attempts m d rt url payload as w) = w\<lparr>posted := ps, slept := ss\<rparr>"
proof (induction as arbitrary: w)
  case Nil
  have "w = w\<lparr>posted := posted w, slept := slept w\<rparr>" by simp
  then show ?case by (metis post_attempts.simps(1) snd_conv)
next
  case (Cons a as)
  let ?w1 = "w\<lparr>posted := posted w @ [(url, payload)]\<rparr>"
  have base: "\<exists>ps ss. ?w1 = w\<lparr>posted := ps, slept := ss\<rparr>"
    by (rule exI[of _ "posted w @ [(url, payload)]"], rule exI[of _ "slept w"]) simp
  have step: "\<exists>ps ss. snd (post_attempts m d rt url payload as (time_sleep (d ! a) ?w1)) = w\<lparr>posted := ps, slept := ss\<rparr>"
  proof -
    from Cons[of "time_sleep (d ! a) ?w1"] obtain ps ss where
      "snd (post_attempts m d rt url payload as (time_sleep (d ! a) ?w1)) = (time_sleep (d ! a) ?w1)\<lparr>posted := ps, slept := ss\<rparr>"
      by blast
    then have "snd (post_attempts m d rt url payload as (time_sleep (d ! a) ?w1)) = w\<lparr>posted := ps, slept := ss\<rparr>"
      by (simp add: time_sleep_def)
    then show ?thesis by blast
  qed
  show ?case
    using base step
    by (cases "responses w (length (posted w))")
       (simp_all add: requests_post_def Let_def)
qed

lemma post_attempts_no_exception:
  assumes "\<forall>k e. responses w k \<noteq> RaisedException e" "\<forall>a \<in> set as. a < m - 1 \<longrightarrow> a < length d"
  shows "\<exists>code err. fst (post_attempts m d rt url payload as w) = Inr (code, err)"
  using assms
proof (induction as arbitrary: w)
  case Nil
  then show ?case by simp
next
  case (Cons a as)
  let ?w1 = "w\<lparr>posted := posted w @ [(url, payload)]\<rparr>"
  have r: "\<forall>k e. responses (time_sleep (d ! a) ?w1) k \<noteq> RaisedException e"
    using Cons.prems(1) by (simp add: time_sleep_def)
  have ih: "\<exists>code err. fst (post_attempts m d rt url payload as (time_sleep (d ! a) ?w1)) = Inr (code, err)"
    using Cons.IH[OF r] Cons.prems(2) by simp
  have a: "a < m - 1 \<longrightarrow> a < length d" using Cons.prems(2) by simp
  show ?case
    using ih a Cons.prems(1)
    by (cases "responses w (length (posted w))")
       (auto simp add: requests_post_def Let_def)
qed

lemma random_choice_total:
  assumes "randbelow_in_range L" "seq \<noteq> []"
  shows "\<exists>x g'. random_choice L seq g = (Inr x, g') \<and> x \<in> set seq"
proof -
  obtain i g' where r: "randbelow L g (length seq) = (i, g')" by (cases "randbelow L g (length seq)")
  have "i < length seq"
    using assms r unfolding randbelow_in_range_def by (metis fst_conv length_greater_0_conv)
  then show ?thesis using assms(2) r by (simp add: random_choice_def)
qed

lemma parametrize_total:
  assumes "randbelow_in_range L" "list_all (\<lambda>(k, opts). opts \<noteq> []) params"
  shows "\<exists>b g'. parametrize L params brief g = (Inr b, g')"
  using assms(2)
proof (induction params arbitrary: brief g)
  case Nil
  then show ?case by simp
next
  case (Cons p params)
  obtain key options where p: "p = (key, options)" by (cases p)
  with Cons.prems have ne: "options \<noteq> []" and rest: "list_all (\<lambda>(k, opts). opts \<noteq> []) params"
    by simp_all
  from random_choice_total[OF assms(1) ne, of g] obtain v g1 where
    c: "random_choice L options g = (Inr v, g1)" by blast
  from Cons.IH[OF rest] show ?case by (simp add: p c)
qed

lemma catalog_configs_ok:
  "t \<in> set (map snd TEMPLATES) \<Longrightarrow> config_ok (tpl_round1 t) \<and> config_ok (tpl_round2 t)"
  by (auto simp: TEMPLATES_def config_ok_def template_image_viewer_def template_calculator_def
      template_todo_list_def template_weather_dashboard_def template_quiz_app_def)

lemma generate_total:
  assumes "randbelow_in_range L" "config_ok (tpl_round1 t)" "config_ok (tpl_round2 t)"
  shows "\<exists>c g'. generate L t rnd email ts g = (Inr c, g')"
proof -
  let ?config = "if rnd = 1 then tpl_round1 t else tpl_round2 t"
  have ok: "config_ok ?config" using assms by simp
  let ?g1 = "random_seed L (md5_hexdigest L (email @ ''-'' @ ts))"
  have "\<exists>b g2. (case cfg_params ?config of None \<Rightarrow> (Inr (cfg_brief ?config), ?g1)
                 | Some params \<Rightarrow> parametrize L params (cfg_brief ?config) ?g1) = (Inr b, g2)"
  proof (cases "cfg_params ?config")
    case None
    then show ?thesis by simp
  next
    case (Some ps)
    then have "list_all (\<lambda>(k, opts). opts \<noteq> []) ps" using ok by (simp add: config_ok_def)
    from parametrize_total[OF assms(1) this] Some show ?thesis by simp
  qed
  then obtain b g2 where "(case cfg_params ?config of None \<Rightarrow> (Inr (cfg_brief ?config), ?g1)
                 | Some params \<Rightarrow> parametrize L params (cfg_brief ?config) ?g1) = (Inr b, g2)" by blast
  then show ?thesis
    unfolding generate_def Let_def by simp
qed

lemma TEMPLATES_nonempty: "map snd TEMPLATES \<noteq> []"
  by (simp add: TEMPLATES_def)

lemma generate_task_total:
  assumes "randbelow_in_range L"
  shows "\<exists>t g. generate_task L sub rnd w =
           (Inr t, w\<lparr>clock_reads := clock_reads w + 1, rng := g, uuid_reads := uuid_reads w + 1\<rparr>)
         \<and> task_email t = sub_email sub \<and> task_round t = rnd
         \<and> task_nonce t = uuids w (uuid_reads w) \<and> task_endpoint t = sub_endpoint sub"
proof -
  let ?dt = "clock w (clock_reads w)"
  let ?w1 = "w\<lparr>clock_reads := clock_reads w + 1\<rparr>"
  let ?seed = "sub_email sub @ ''-'' @ strftime_hour ?dt"
  from random_choice_total[OF assms TEMPLATES_nonempty] obtain tpl g1 where
    c: "get_random_template L ?seed (rng ?w1) = (Inr tpl, g1)" and m: "tpl \<in> set (map snd TEMPLATES)"
    unfolding get_random_template_def by blast
  from catalog_configs_ok[OF m] generate_total[OF assms] obtain content g2 where
    g: "generate L tpl rnd (sub_email sub) (strftime_hour ?dt) g1 = (Inr content, g2)" by blast
  show ?thesis
    using c g
    by (auto simp add: generate_task_def utcnow_def uuid4_def Let_def)
qed

lemma post_task_to_student_ok:
  assumes "\<forall>k e. responses w k \<noteq> RaisedException e"
  shows "\<exists>code err ps ss. post_task_to_student t w = (Inr (code, err), w\<lparr>posted := ps, slept := ss\<rparr>)"
proof -
  have "\<forall>a \<in> set [0..<MAX_RETRIES]. a < MAX_RETRIES - 1 \<longrightarrow> a < length RETRY_DELAYS"
    by (simp add: MAX_RETRIES_def RETRY_DELAYS_def)
  from post_attempts_no_exception[OF assms this]
    post_attempts_world[of MAX_RETRIES RETRY_DELAYS REQUEST_TIMEOUT "task_endpoint t" "task_payload t" "[0..<MAX_RETRIES]" w]
  show ?thesis unfolding post_task_to_student_def
    by (metis prod.collapse)
qed

lemma post_attempts_3_eq:
  "post_task_to_student t w = post_attempts 3 [60, 180, 600] 300 (task_endpoint t) (task_payload t) [0, 1, 2] w"
  by (simp add: post_task_to_student_def MAX_RETRIES_def RETRY_DELAYS_def REQUEST_TIMEOUT_def upt_3)

lemma post_200_at_0:
  assumes "responses w (length (posted w)) = Response 200 body"
  shows "fst (post_attempts 3 [60, 180, 600] 300 url payload [0, 1, 2] w) = Inr (200, None)
       \<and> length (posted (snd (post_attempts 3 [60, 180, 600] 300 url payload [0, 1, 2] w))) = length (posted w) + 1
       \<and> slept (snd (post_attempts 3 [60, 180, 600] 300 url payload [0, 1, 2] w)) = slept w"
  using assms by (simp add: requests_post_def)

lemma post_200_at_1:
  assumes "retryable (responses w (length (posted w)))"
    "responses w (length (posted w) + 1) = Response 200 body"
  shows "fst (post_attempts 3 [60, 180, 600] 300 url payload [0, 1, 2] w) = Inr (200, None)
       \<and> length (posted (snd (post_attempts 3 [60, 180, 600] 300 url payload [0, 1, 2] w))) = length (posted w) + 2
       \<and> slept (snd (post_attempts 3 [60, 180, 600] 300 url payload [0, 1, 2] w)) = slept w @ [60]"
  using assms
  by (cases "responses w (length (posted w))")
     (simp_all add: requests_post_def time_sleep_def retryable_def Let_def)

lemma post_200_at_2:
  assumes "retryable (responses w (length (posted w)))"
    "retryable (responses w (length (posted w) + 1))"
    "responses w (length (posted w) + 2) = Response 200 body"
  shows "fst (post_attempts 3 [60, 180, 600] 300 url payload [0, 1, 2] w) = Inr (200, None)
       \<and> length (posted (snd (post_attempts 3 [60, 180, 600] 300 url payload [0, 1, 2] w))) = length (posted w) + 3
       \<and> slept (snd (post_attempts 3 [60, 180, 600] 300 url payload [0, 1, 2] w)) = slept w @ [60, 180]"
  using assms
  by (cases "responses w (length (posted w))"; cases "responses w (length (posted w) + 1)")
     (simp_all add: requests_post_def time_sleep_def retryable_def Let_def)

lemma post_exhausted:
  assumes "retryable (responses w (length (posted w)))"
    "retryable (responses w (length (posted w) + 1))"
    "retryable (responses w (length (posted w) + 2))"
  shows "(\<exists>msg. fst (post_attempts 3 [60, 180, 600] 300 url payload [0, 1, 2] w)
            = Inr (final_status (responses w (length (posted w) + 2)), Some msg))
       \<and> final_status (responses w (length (posted w) + 2)) \<noteq> 200
       \<and> length (posted (snd (post_attempts 3 [60, 180, 600] 300 url payload [0, 1, 2] w))) = length (posted w) + 3
       \<and> slept (snd (post_attempts 3 [60, 180, 600] 300 url payload [0, 1, 2] w)) = slept w @ [60, 180]"
  using assms
  by (cases "responses w (length (posted w))"; cases "responses w (length (posted w) + 1)";
      cases "responses w (length (posted w) + 2)")
     (simp_all add: requests_post_def time_sleep_def retryable_def final_status_def Let_def)

lemma less_3_cases: "k < (3::nat) \<Longrightarrow> k = 0 \<or> k = 1 \<or> k = 2"
  by arith

lemma post_200_at_k:
  assumes "k < 3" "\<forall>j<k. retryable (responses w (length (posted w) + j))"
    "responses w (length (posted w) + k) = Response 200 body"
  shows "fst (post_attempts 3 [60, 180, 600] 300 url payload [0, 1, 2] w) = Inr (200, None)
       \<and> length (posted (snd (post_attempts 3 [60, 180, 600] 300 url payload [0, 1, 2] w))) = length (posted w) + k + 1
       \<and> slept (snd (post_attempts 3 [60, 180, 600] 300 url payload [0, 1, 2] w)) = slept w @ take k [60, 180]"
proof -
  from less_3_cases[OF assms(1)] consider "k = 0" | "k = 1" | "k = 2" by blast
  then show ?thesis
  proof cases
    case 1
    with assms(3) post_200_at_0[of w body url] show ?thesis by simp
  next
    case 2
    have "(0::nat) < k" using 2 by simp
    with assms(2) have "retryable (responses w (length (posted w) + 0))" by blast
    with 2 assms(3) post_200_at_1[of w body url] show ?thesis by simp
  next
    case 3
    have "(0::nat) < k" and "(1::nat) < k" using 3 by simp_all
    with assms(2) have "retryable (responses w (length (posted w) + 0))"
      and "retryable (responses w (length (posted w) + 1))" by blast+
    with 3 assms(3) post_200_at_2[of w body url] show ?thesis by simp
  qed
qed

lemma process_loop_step:
  assumes "generate_task L sub rnd w = (Inr t, w1)"
    "\<not> task_exists db (sub_email sub) (task_task t) rnd"
    "post_task_to_student t w1 = (Inr (code, err), w2)"
    "insert_task db (task_columns (t\<lparr>task_statuscode := Some code, task_error := err\<rparr>)) = Inr (tid, db')"
  shows "process_loop L (sub # rest) rnd db w (p, s, f)
           = process_loop L rest rnd db' (time_sleep 1 w2)
               (if code = 200 then (p + 1, s, f) else (p, s, f + 1))
       \<and> tasks db' = tasks db @ [task_columns (t\<lparr>task_statuscode := Some code, task_error := err\<rparr>)]
       \<and> tk_statuscode (last (tasks db')) = Some code \<and> tk_error (last (tasks db')) = err"
  using assms by (auto simp: insert_task_def task_columns_def split: if_splits)

lemma process_loop_never_aborts:
  assumes L: "randbelow_in_range L"
  shows "(\<forall>k e. responses w k \<noteq> RaisedException e) \<Longrightarrow> nonces_fresh db w \<Longrightarrow>
         \<exists>p s f db' w'. process_loop L subs rnd db w (p0, s0, f0) = (Inr (p, s, f), db', w')
            \<and> p + s + f = p0 + s0 + f0 + length subs
            \<and> length (tasks db') + p0 + f0 = length (tasks db) + p + f"
proof (induction subs arbitrary: db w p0 s0 f0)
  case Nil
  then show ?case by simp
next
  case (Cons sub rest)
  from generate_task_total[OF L, of sub rnd w] obtain t g where
    gt: "generate_task L sub rnd w =
           (Inr t, w\<lparr>clock_reads := clock_reads w + 1, rng := g, uuid_reads := uuid_reads w + 1\<rparr>)"
    and te: "task_email t = sub_email sub" and tr: "task_round t = rnd"
    and tn: "task_nonce t = uuids w (uuid_reads w)" by blast
  let ?w1 = "w\<lparr>clock_reads := clock_reads w + 1, rng := g, uuid_reads := uuid_reads w + 1\<rparr>"
  have r1: "\<forall>k e. responses ?w1 k \<noteq> RaisedException e" using Cons.prems(1) by simp
  have f1: "nonces_fresh db ?w1" using Cons.prems(2) by (simp add: nonces_fresh_def)
  show ?case
  proof (cases "task_exists db (sub_email sub) (task_task t) rnd")
    case True
    from Cons.IH[OF r1 f1, of p0 "s0 + 1" f0] True gt show ?thesis by auto
  next
    case False
    from post_task_to_student_ok[OF r1, of t] obtain code err ps ss where
      po: "post_task_to_student t ?w1 = (Inr (code, err), ?w1\<lparr>posted := ps, slept := ss\<rparr>)" by blast
    let ?w2 = "?w1\<lparr>posted := ps, slept := ss\<rparr>"
    let ?row = "task_columns (t\<lparr>task_statuscode := Some code, task_error := err\<rparr>)"
    have fresh_nonce: "\<not> list_ex (\<lambda>r. tk_nonce r = tk_nonce ?row) (tasks db)"
      using Cons.prems(2) tn by (auto simp: nonces_fresh_def task_columns_def list_ex_iff)
    have no_triple: "\<not> list_ex (\<lambda>r. tk_email r = tk_email ?row \<and> tk_task r = tk_task ?row
                          \<and> tk_round r = tk_round ?row) (tasks db)"
      using False te tr by (auto simp: task_exists_def task_columns_def list_ex_iff filter_empty_conv)
    have ins: "insert_task db ?row = Inr (length (tasks db) + 1, db\<lparr>tasks := tasks db @ [?row]\<rparr>)"
      using fresh_nonce no_triple unfolding insert_task_def by simp
    let ?db' = "db\<lparr>tasks := tasks db @ [?row]\<rparr>"
    let ?w3 = "time_sleep 1 ?w2"
    have r3: "\<forall>k e. responses ?w3 k \<noteq> RaisedException e" using Cons.prems(1) by (simp add: time_sleep_def)
    have inj: "\<And>k. Suc (uuid_reads w) \<le> k \<Longrightarrow> uuids w (uuid_reads w) \<noteq> uuids w k"
    proof
      fix k assume k: "Suc (uuid_reads w) \<le> k" and e: "uuids w (uuid_reads w) = uuids w k"
      from Cons.prems(2) have "uuid_reads w \<le> uuid_reads w \<longrightarrow> uuid_reads w \<le> k \<longrightarrow>
          uuids w (uuid_reads w) = uuids w k \<longrightarrow> uuid_reads w = k"
        unfolding nonces_fresh_def by blast
      with k e show False by simp
    qed
    have f3: "nonces_fresh ?db' ?w3"
      using Cons.prems(2) tn inj
      by (auto simp: nonces_fresh_def time_sleep_def task_columns_def)
    show ?thesis
    proof (cases "code = 200")
      case True
      from Cons.IH[OF r3 f3, of "p0 + 1" s0 f0] False gt po ins True show ?thesis by auto
    next
      case c: False
      from Cons.IH[OF r3 f3, of p0 s0 "f0 + 1"] False gt po ins c show ?thesis by auto
    qed
  qed
qed

text \<open>
  C6.  One dispatch makes at least one and at most three POSTs.  When the first HTTP 200
  comes at attempt \<open>k\<close> (after \<open>k\<close> answers that were a non-200 status, a timeout or
  another \<open>requests\<close> error), it returns \<open>(200, None)\<close> at once, after \<open>k + 1\<close> POSTs.
  When all three attempts fail in those ways it returns the status code of the last
  answer, or 0 when the last attempt timed out or raised a \<open>requests\<close> error, with an
  error string, after three POSTs.  The batch loop writes the returned code and error on
  the Task row it inserts and goes on with the remaining participants, whatever the code
  is; and when no POST raises anything but \<open>requests\<close> exceptions (with fresh nonces and
  a generator that draws in range) the batch runs to its end: every participant is
  counted as processed, skipped or failed, and each processed or failed one has a row.
\<close>

theorem C6_dispatch_outcome:
  "(let r = post_task_to_student t w; n = length (posted w) in
      n < length (posted (snd r)) \<and> length (posted (snd r)) \<le> n + 3
    \<and> (\<forall>k<3. (\<forall>j<k. retryable (responses w (n + j))) \<and> (\<exists>body. responses w (n + k) = Response 200 body)
          \<longrightarrow> fst r = Inr (200, None) \<and> length (posted (snd r)) = n + k + 1)
    \<and> ((\<forall>j<3. retryable (responses w (n + j))) \<longrightarrow>
          (\<exists>msg. fst r = Inr (final_status (responses w (n + 2)), Some msg))
          \<and> final_status (responses w (n + 2)) \<noteq> 200
          \<and> length (posted (snd r)) = n + 3))
   \<and> (\<forall>sub rest rnd db p s f t1 w1 code err w2 tid db'.
         generate_task L sub rnd w = (Inr t1, w1)
         \<and> \<not> task_exists db (sub_email sub) (task_task t1) rnd
         \<and> post_task_to_student t1 w1 = (Inr (code, err), w2)
         \<and> insert_task db (task_columns (t1\<lparr>task_statuscode := Some code, task_error := err\<rparr>))
               = Inr (tid, db')
         \<longrightarrow> process_loop L (sub # rest) rnd db w (p, s, f)
               = process_loop L rest rnd db' (time_sleep 1 w2)
                   (if code = 200 then (p + 1, s, f) else (p, s, f + 1))
             \<and> tk_statuscode (last (tasks db')) = Some code \<and> tk_error (last (tasks db')) = err)
   \<and> (\<forall>subs rnd db.
         randbelow_in_range L \<and> (\<forall>k e. responses w k \<noteq> RaisedException e) \<and> nonces_fresh db w
         \<longrightarrow> (\<exists>p s f db' w'. process_submissions L subs rnd db w = (Inr (p, s, f), db', w')
                 \<and> p + s + f = length subs
                 \<and> length (tasks db') = length (tasks db) + p + f))"
proof (intro conjI allI impI)
  let ?r = "post_task_to_student t w"
  let ?n = "length (posted w)"
  show "let r = post_task_to_student t w; n = length (posted w) in
      n < length (posted (snd r)) \<and> length (posted (snd r)) \<le> n + 3
    \<and> (\<forall>k<3. (\<forall>j<k. retryable (responses w (n + j))) \<and> (\<exists>body. responses w (n + k) = Response 200 body)
          \<longrightarrow> fst r = Inr (200, None) \<and> length (posted (snd r)) = n + k + 1)
    \<and> ((\<forall>j<3. retryable (responses w (n + j))) \<longrightarrow>
          (\<exists>msg. fst r = Inr (final_status (responses w (n + 2)), Some msg))
          \<and> final_status (responses w (n + 2)) \<noteq> 200
          \<and> length (posted (snd r)) = n + 3)"
    unfolding Let_def post_attempts_3_eq
  proof (intro conjI allI impI)
    show "?n < length (posted (snd (post_attempts 3 [60, 180, 600] 300 (task_endpoint t) (task_payload t) [0, 1, 2] w)))"
      using post_attempts_3_posts by blast
    show "length (posted (snd (post_attempts 3 [60, 180, 600] 300 (task_endpoint t) (task_payload t) [0, 1, 2] w))) \<le> ?n + 3"
      using post_attempts_3_posts by blast
  next
    fix k :: nat assume k: "k < 3"
      and h: "(\<forall>j<k. retryable (responses w (?n + j))) \<and> (\<exists>body. responses w (?n + k) = Response 200 body)"
    then obtain body where b: "responses w (?n + k) = Response 200 body" by blast
    from post_200_at_k[OF k _ b, of "task_endpoint t"] h
    show "fst (post_attempts 3 [60, 180, 600] 300 (task_endpoint t) (task_payload t) [0, 1, 2] w) = Inr (200, None)"
      and "length (posted (snd (post_attempts 3 [60, 180, 600] 300 (task_endpoint t) (task_payload t) [0, 1, 2] w))) = ?n + k + 1"
      by blast+
  next
    assume h: "\<forall>j<3. retryable (responses w (?n + j))"
    have "(0::nat) < 3" "(1::nat) < 3" "(2::nat) < 3" by simp_all
    with h have "retryable (responses w (?n + 0))" "retryable (responses w (?n + 1))"
      "retryable (responses w (?n + 2))" by blast+
    then have a: "retryable (responses w ?n)" "retryable (responses w (?n + 1))"
      "retryable (responses w (?n + 2))" by simp_all
    from post_exhausted[OF a, of "task_endpoint t"]
    show "\<exists>msg. fst (post_attempts 3 [60, 180, 600] 300 (task_endpoint t) (task_payload t) [0, 1, 2] w)
            = Inr (final_status (responses w (?n + 2)), Some msg)"
      and "final_status (responses w (?n + 2)) \<noteq> 200"
      and "length (posted (snd (post_attempts 3 [60, 180, 600] 300 (task_endpoint t) (task_payload t) [0, 1, 2] w))) = ?n + 3"
      by blast+
  qed
next
  fix sub rest rnd db p s f t1 w1 code err w2 tid db'
  assume h: "generate_task L sub rnd w = (Inr t1, w1)
         \<and> \<not> task_exists db (sub_email sub) (task_task t1) rnd
         \<and> post_task_to_student t1 w1 = (Inr (code, err), w2)
         \<and> insert_task db (task_columns (t1\<lparr>task_statuscode := Some code, task_error := err\<rparr>))
               = Inr (tid, db')"
  from h process_loop_step[of L sub rnd w t1 w1 db code err w2 tid db' rest p s f]
  show "process_loop L (sub # rest) rnd db w (p, s, f)
               = process_loop L rest rnd db' (time_sleep 1 w2)
                   (if code = 200 then (p + 1, s, f) else (p, s, f + 1))"
    and "tk_statuscode (last (tasks db')) = Some code" and "tk_error (last (tasks db')) = err"
    by blast+
next
  fix subs rnd db
  assume h: "randbelow_in_range L \<and> (\<forall>k e. responses w k \<noteq> RaisedException e) \<and> nonces_fresh db w"
  then have a: "randbelow_in_range L" and b: "\<forall>k e. responses w k \<noteq> RaisedException e"
    and c: "nonces_fresh db w" by blast+
  from process_loop_never_aborts[OF a b c, of subs rnd 0 0 0]
  show "\<exists>p s f db' w'. process_submissions L subs rnd db w = (Inr (p, s, f), db', w')
                 \<and> p + s + f = length subs
                 \<and> length (tasks db') = length (tasks db) + p + f"
    unfolding process_submissions_def by auto
qed

theorem C6_dispatch_outcome_witness:
  "randbelow_in_range example_pylib
   \<and> (\<forall>k e. responses example_pyworld k \<noteq> RaisedException e)
   \<and> nonces_fresh db_empty example_pyworld
   \<and> (\<exists>p s f db' w'.
         process_submissions example_pylib example_submissions 1 db_empty example_pyworld
           = (Inr (p, s, f), db', w')
         \<and> p + s + f = 2 \<and> length (tasks db') = p + f)"
proof -
  have a: "randbelow_in_range example_pylib"
    by (simp add: randbelow_in_range_def example_pylib_def)
  have b: "\<forall>k e. responses example_pyworld k \<noteq> RaisedException e"
    by (simp add: example_pyworld_def)
  have c: "nonces_fresh db_empty example_pyworld"
    by (simp add: nonces_fresh_def db_empty_def example_pyworld_def)
  have l: "length example_submissions = 2" "length (tasks db_empty) = 0"
    by (simp_all add: example_submissions_def db_empty_def)
  note inst = C6_dispatch_outcome [where w = example_pyworld and L = example_pylib,
      THEN conjunct2, THEN conjunct2, rule_format, of db_empty example_submissions 1]
  from inst a b c have "\<exists>p s f db' w'.
         process_submissions example_pylib example_submissions 1 db_empty example_pyworld
           = (Inr (p, s, f), db', w')
         \<and> p + s + f = length example_submissions
         \<and> length (tasks db') = length (tasks db_empty) + p + f"
    by blast
  with a b c l show ?thesis by simp
qed

section \<open>Properties of the Task Generator\<close>

lemma get_random_template_any_state:
  "get_random_template L seed g = get_random_template L seed g'"
  by (simp add: get_random_template_def)

lemma generate_any_state:
  "generate L t rnd email ts g = generate L t rnd email ts g'"
  by (simp add: generate_def)

lemma generate_task_content:
  "map_sum id generated_content (fst (generate_task L sub rnd w)) =
     (case get_random_template L (sub_email sub @ ''-'' @ strftime_hour (clock w (clock_reads w))) g0 of
        (Inl e, g1) \<Rightarrow> Inl e
      | (Inr template, g1) \<Rightarrow>
          (case generate L template rnd (sub_email sub) (strftime_hour (clock w (clock_reads w))) g0 of
             (Inl e, g2) \<Rightarrow> Inl e
           | (Inr c, g2) \<Rightarrow> Inr (tc_brief c, tc_attachments c, tc_checks c,
                 generate_task_id L (tpl_id template) (tc_brief c) (tc_attachments c))))"
proof -
  let ?hour = "strftime_hour (clock w (clock_reads w))"
  let ?seed = "sub_email sub @ ''-'' @ ?hour"
  let ?w1 = "w\<lparr>clock_reads := clock_reads w + 1\<rparr>"
  obtain r g1 where c: "get_random_template L ?seed g0 = (r, g1)"
    by (cases "get_random_template L ?seed g0")
  then have c': "get_random_template L ?seed (rng ?w1) = (r, g1)"
    using get_random_template_any_state[of L ?seed g0 "rng ?w1"] by simp
  show ?thesis
  proof (cases r)
    case (Inl e)
    with c c' show ?thesis by (simp add: generate_task_def utcnow_def Let_def)
  next
    case (Inr template)
    obtain r2 g2 where g: "generate L template rnd (sub_email sub) ?hour g0 = (r2, g2)"
      by (cases "generate L template rnd (sub_email sub) ?hour g0")
    then have g': "generate L template rnd (sub_email sub) ?hour g1 = (r2, g2)"
      using generate_any_state[of L template rnd "sub_email sub" ?hour g0 g1] by simp
    show ?thesis
    proof (cases r2)
      case (Inl e)
      with Inr c c' g g' show ?thesis by (simp add: generate_task_def utcnow_def Let_def)
    next
      case (Inr content)
      with \<open>r = Inr template\<close> c c' g g' show ?thesis
        by (simp add: generate_task_def utcnow_def uuid4_def Let_def generated_content_def)
    qed
  qed
qed

text \<open>
  C2.  Two runs of Round-1 task generation for the same email whose clocks read the same
  hour bucket end alike, whatever nonces, generator states and earlier readings their
  worlds hold: both fail with the same error or both return a task, and then brief,
  attachments, checks and task id are equal (the nonce need not be).  When the generator
  draws in range, as \<open>random\<close> does, both runs do return a task.
\<close>

theorem C2_generation_deterministic:
  assumes "sub_email sub1 = sub_email sub2"
    and "strftime_hour (clock w1 (clock_reads w1)) = strftime_hour (clock w2 (clock_reads w2))"
  shows "map_sum id generated_content (fst (generate_task L sub1 1 w1))
           = map_sum id generated_content (fst (generate_task L sub2 1 w2))
       \<and> (randbelow_in_range L \<longrightarrow>
            (\<exists>t1 t2. fst (generate_task L sub1 1 w1) = Inr t1 \<and> fst (generate_task L sub2 1 w2) = Inr t2
               \<and> task_brief t1 = task_brief t2 \<and> task_attachments t1 = task_attachments t2
               \<and> task_checks t1 = task_checks t2 \<and> task_task t1 = task_task t2))"
proof (intro conjI impI)
  show eq: "map_sum id generated_content (fst (generate_task L sub1 1 w1))
           = map_sum id generated_content (fst (generate_task L sub2 1 w2))"
    by (simp only: generate_task_content[where ?g0.0 = "random_seed L []"] assms)
  assume r: "randbelow_in_range L"
  from generate_task_total[OF r, of sub1 1 w1] obtain t1 where t1: "fst (generate_task L sub1 1 w1) = Inr t1"
    by force
  from generate_task_total[OF r, of sub2 1 w2] obtain t2 where t2: "fst (generate_task L sub2 1 w2) = Inr t2"
    by force
  from eq t1 t2 have "generated_content t1 = generated_content t2" by simp
  with t1 t2 show "\<exists>t1 t2. fst (generate_task L sub1 1 w1) = Inr t1 \<and> fst (generate_task L sub2 1 w2) = Inr t2
               \<and> task_brief t1 = task_brief t2 \<and> task_attachments t1 = task_attachments t2
               \<and> task_checks t1 = task_checks t2 \<and> task_task t1 = task_task t2"
    by (simp add: generated_content_def)
qed

theorem C2_generation_deterministic_witness:
  "sub_email example_submission = sub_email example_submission_again
   \<and> strftime_hour (clock example_pyworld (clock_reads example_pyworld))
       = strftime_hour (clock example_pyworld_later (clock_reads example_pyworld_later))
   \<and> map_sum id generated_content (fst (generate_task example_pylib example_submission 1 example_pyworld))
       = map_sum id generated_content
           (fst (generate_task example_pylib example_submission_again 1 example_pyworld_later))"
proof -
  have e: "sub_email example_submission = sub_email example_submission_again"
    by (simp add: example_submission_def example_submission_again_def)
  have h: "strftime_hour (clock example_pyworld (clock_reads example_pyworld))
       = strftime_hour (clock example_pyworld_later (clock_reads example_pyworld_later))"
    by (simp add: example_pyworld_def example_pyworld_later_def strftime_hour_def)
  from C2_generation_deterministic [OF e h, of example_pylib] e h
  show ?thesis by blast
qed

section \<open>Properties of the Check Execution Engine\<close>

lemma score_create_result [simp]:
  "score_in_unit (create_result E s repo c x reason logs) \<longleftrightarrow> 0 \<le> x \<and> x \<le> 1"
  by (simp add: score_in_unit_def create_result_def)

lemma element_exists_score: "score_in_unit (fst (check_element_exists E chk repo s))"
  by (simp add: check_element_exists_def check_element_exists_try_def Let_def split: prod.splits sum.splits)

lemma button_loop_score:
  "button_loop E repo ts s = (Inr (Some r), s1) \<Longrightarrow> score_in_unit r"
proof (induction ts arbitrary: s)
  case Nil
  then show ?case by simp
next
  case (Cons t ts)
  then show ?case by (auto split: prod.splits sum.splits if_splits)
qed

lemma button_exists_score: "score_in_unit (fst (check_button_exists E chk repo s))"
  by (auto simp add: check_button_exists_def check_button_exists_try_def Let_def button_loop_score
      split: prod.splits sum.splits option.splits)

lemma click_interaction_score: "score_in_unit (fst (check_click_interaction E chk repo s))"
  by (simp add: check_click_interaction_def check_click_interaction_try_def Let_def
      split: prod.splits sum.splits)

lemma responsive_loop_scores:
  "responsive_loop E ws scores s = (Inr out, s1) \<Longrightarrow> \<forall>x \<in> set scores. 0 \<le> x \<and> x \<le> 1 \<Longrightarrow>
   \<forall>x \<in> set out. 0 \<le> x \<and> x \<le> 1"
proof (induction ws arbitrary: scores s)
  case Nil
  then show ?case by simp
next
  case (Cons w ws)
  from Cons.prems show ?case
    by (auto split: prod.splits sum.splits if_splits option.splits dest!: Cons.IH)
qed

lemma sum_list_unit_bounds:
  fixes xs :: "rat list"
  assumes "\<forall>x \<in> set xs. 0 \<le> x \<and> x \<le> 1"
  shows "0 \<le> sum_list xs \<and> sum_list xs \<le> rat_of_nat (length xs)"
  using assms by (induction xs) auto

lemma average_in_unit:
  fixes xs :: "rat list"
  assumes "\<forall>x \<in> set xs. 0 \<le> x \<and> x \<le> 1" "xs \<noteq> []"
  shows "0 \<le> sum_list xs / rat_of_nat (length xs) \<and> sum_list xs / rat_of_nat (length xs) \<le> 1"
proof -
  have p: "0 < rat_of_nat (length xs)" using assms(2) by simp
  from sum_list_unit_bounds[OF assms(1)] p show ?thesis
    by (simp add: divide_le_eq)
qed

lemma responsive_score: "score_in_unit (fst (check_responsive E chk repo s))"
proof -
  let ?bp = "case c_breakpoints chk of None \<Rightarrow> [768, 1024] | Some b \<Rightarrow> b"
  obtain r s1 where l: "responsive_loop E ?bp [] s = (r, s1)" by (cases "responsive_loop E ?bp [] s")
  show ?thesis
  proof (cases r)
    case (Inl e)
    with l show ?thesis by (simp add: check_responsive_def check_responsive_try_def)
  next
    case (Inr scores)
    with l responsive_loop_scores[of E ?bp "[]" s scores s1]
    have b: "\<forall>x \<in> set scores. 0 \<le> x \<and> x \<le> 1" by simp
    show ?thesis
    proof (cases "scores = []")
      case True
      with l Inr show ?thesis by (simp add: check_responsive_def check_responsive_try_def)
    next
      case False
      from average_in_unit[OF b False] l Inr False show ?thesis
        by (simp add: check_responsive_def check_responsive_try_def Let_def)
    qed
  qed
qed

lemma run_single_check_supported:
  assumes "supported_type chk"
  shows "\<exists>r. fst (run_single_check E chk repo s) = Some r \<and> score_in_unit r"
proof -
  from assms consider "get_type chk = ''element_exists''" | "get_type chk = ''button_exists''"
    | "get_type chk = ''click_interaction''" | "get_type chk = ''responsive_check''"
    by (auto simp: supported_type_def)
  then show ?thesis
  proof cases
    case 1
    with element_exists_score[of E chk repo s] show ?thesis
      by (auto simp add: run_single_check_def run_single_check_try_def split: prod.splits)
  next
    case 2
    with button_exists_score[of E chk repo s] show ?thesis
      by (auto simp add: run_single_check_def run_single_check_try_def split: prod.splits)
  next
    case 3
    with click_interaction_score[of E chk repo s] show ?thesis
      by (auto simp add: run_single_check_def run_single_check_try_def split: prod.splits)
  next
    case 4
    with responsive_score[of E chk repo s] show ?thesis
      by (auto simp add: run_single_check_def run_single_check_try_def split: prod.splits)
  qed
qed

lemma run_single_check_unsupported:
  assumes "\<not> supported_type chk"
  shows "run_single_check E chk repo s = (None, s)"
  using assms by (simp add: supported_type_def run_single_check_def run_single_check_try_def)

lemma run_checks_results:
  "length (fst (run_checks E checks repo s)) = length (filter supported_type checks)
   \<and> (\<forall>r \<in> set (fst (run_checks E checks repo s)). score_in_unit r)"
proof (induction checks arbitrary: s)
  case Nil
  then show ?case by simp
next
  case (Cons chk checks)
  obtain r s1 where r: "run_single_check E chk repo s = (r, s1)" by (cases "run_single_check E chk repo s")
  obtain rs s2 where rs: "run_checks E checks repo s1 = (rs, s2)" by (cases "run_checks E checks repo s1")
  from Cons[of s1] rs have ih: "length rs = length (filter supported_type checks)"
    "\<forall>x \<in> set rs. score_in_unit x" by simp_all
  show ?case
  proof (cases "supported_type chk")
    case True
    from run_single_check_supported[OF True, of E repo s] r obtain x where
      x: "r = Some x" "score_in_unit x" by auto
    with r rs ih True show ?thesis by simp
  next
    case False
    from run_single_check_unsupported[OF False, of E repo s] r have "r = None" by simp
    with r rs ih False show ?thesis by simp
  qed
qed

lemma http_single_supported:
  assumes "supported_type chk"
  shows "\<exists>r. http_run_single_check E s sp chk repo = Some r \<and> score_in_unit r"
  using assms
  by (auto simp: supported_type_def http_run_single_check_def http_run_single_check_try_def Let_def
      split: sum.splits)

lemma http_single_unsupported:
  assumes "\<not> supported_type chk"
  shows "http_run_single_check E s sp chk repo = None"
  using assms
  by (simp add: supported_type_def http_run_single_check_def http_run_single_check_try_def)

lemma http_single_neutral:
  assumes "get_type chk = ''click_interaction'' \<or> get_type chk = ''responsive_check''"
  shows "\<exists>r. http_run_single_check E s sp chk repo = Some r \<and> rs_score r = Some (1 / 2)"
  using assms
  by (auto simp: http_run_single_check_def http_run_single_check_try_def create_result_def)

lemma http_run_checks_results:
  "length (http_run_checks E s sp checks repo) = length (filter supported_type checks)
   \<and> (\<forall>r \<in> set (http_run_checks E s sp checks repo). score_in_unit r)"
proof (induction checks)
  case Nil
  then show ?case by simp
next
  case (Cons chk checks)
  show ?case
  proof (cases "supported_type chk")
    case True
    from http_single_supported[OF True, of E s sp repo] obtain x where
      "http_run_single_check E s sp chk repo = Some x" "score_in_unit x" by blast
    with Cons True show ?thesis by simp
  next
    case False
    from http_single_unsupported[OF False, of E s sp repo] Cons False show ?thesis by simp
  qed
qed

lemma http_fallback_scores:
  "\<forall>r \<in> set (fst (http_fallback_checks E url checks repo s)). score_in_unit r"
proof -
  obtain g s1 where g: "requests_get E url s = (g, s1)" by (cases "requests_get E url s")
  show ?thesis
  proof (cases g)
    case (Inl e)
    with g show ?thesis by (simp add: http_fallback_checks_def)
  next
    case (Inr p)
    obtain code sp where p: "p = (code, sp)" by (cases p)
    with g Inr http_run_checks_results[of E s1 sp checks repo] show ?thesis
      by (simp add: http_fallback_checks_def)
  qed
qed

lemma http_fallback_count:
  assumes "requests_get E url s = (Inr (200, sp), s1)"
  shows "length (fst (http_fallback_checks E url checks repo s)) = length (filter supported_type checks)"
  using assms http_run_checks_results[of E s1 sp checks repo]
  by (simp add: http_fallback_checks_def)

lemma run_playwright_checks_scores:
  "\<forall>r \<in> set (fst (run_playwright_checks E decoded repo url s)). score_in_unit r"
proof (cases decoded)
  case None
  then show ?thesis by (simp add: run_playwright_checks_def)
next
  case (Some checks)
  show ?thesis
  proof (cases "PLAYWRIGHT_AVAILABLE E")
    case False
    with Some http_fallback_scores[of E url checks repo s] show ?thesis
      by (simp add: run_playwright_checks_def)
  next
    case True
    obtain l s1 where l: "launch E s = (l, s1)" by (cases "launch E s")
    show ?thesis
    proof (cases l)
      case (Inl e)
      with Some True l http_fallback_scores[of E url checks repo s1] show ?thesis
        by (simp add: run_playwright_checks_def)
    next
      case (Inr u)
      obtain g s2 where g: "goto E url s1 = (g, s2)" by (cases "goto E url s1")
      show ?thesis
      proof (cases g)
        case (Inl ge)
        with Some True l Inr g show ?thesis
          by (cases ge) (simp_all add: run_playwright_checks_def)
      next
        case r: (Inr u')
        with Some True l Inr g run_checks_results[of E checks repo s2] show ?thesis
          by (simp add: run_playwright_checks_def split: prod.splits)
      qed
    qed
  qed
qed

lemma run_playwright_checks_count:
  assumes "PLAYWRIGHT_AVAILABLE E" "launch E s = (Inr u, s1)" "goto E url s1 = (Inr u', s2)"
  shows "length (fst (run_playwright_checks E (Some checks) repo url s)) = length (filter supported_type checks)"
  using assms run_checks_results[of E checks repo s2]
  by (auto simp add: run_playwright_checks_def split: prod.splits)

text \<open>
  C1, in the form the code satisfies.  Both backends return exactly one Result for every Check descriptor whose
  type is \<open>element_exists\<close>, \<open>button_exists\<close>, \<open>click_interaction\<close> or
  \<open>responsive_check\<close>, and no Result for a descriptor of any other type: once the page has
  loaded (interactive backend) or has been fetched with HTTP 200 (static backend), the
  number of Results is the number of descriptors of those four types.  Every Result
  either backend produces, also the single one of a failed page load, has a score from 0
  to 1.  In the static backend \<open>click_interaction\<close> and \<open>responsive_check\<close> score 1/2.
\<close>

theorem C1_one_result_per_supported_check:
  "(\<forall>r \<in> set (fst (run_playwright_checks E decoded repo url s)). score_in_unit r)
   \<and> (\<forall>r \<in> set (fst (http_fallback_checks E url checks repo s)). score_in_unit r)
   \<and> (PLAYWRIGHT_AVAILABLE E \<and> (\<exists>s1 s2. launch E s = (Inr (), s1) \<and> goto E url s1 = (Inr (), s2))
        \<longrightarrow> length (fst (run_playwright_checks E (Some checks) repo url s))
              = length (filter supported_type checks))
   \<and> ((\<exists>sp s1. requests_get E url s = (Inr (200, sp), s1))
        \<longrightarrow> length (fst (http_fallback_checks E url checks repo s))
              = length (filter supported_type checks))
   \<and> (supported_type chk \<longrightarrow>
         (\<exists>r. fst (run_single_check E chk repo s) = Some r \<and> score_in_unit r)
       \<and> (\<exists>r. http_run_single_check E s sp chk repo = Some r \<and> score_in_unit r))
   \<and> (\<not> supported_type chk \<longrightarrow>
         fst (run_single_check E chk repo s) = None \<and> http_run_single_check E s sp chk repo = None)
   \<and> (get_type chk = ''click_interaction'' \<or> get_type chk = ''responsive_check'' \<longrightarrow>
         (\<exists>r. http_run_single_check E s sp chk repo = Some r \<and> rs_score r = Some (1 / 2)))"
proof (intro conjI impI)
  show "\<forall>r \<in> set (fst (run_playwright_checks E decoded repo url s)). score_in_unit r"
    by (rule run_playwright_checks_scores)
  show "\<forall>r \<in> set (fst (http_fallback_checks E url checks repo s)). score_in_unit r"
    by (rule http_fallback_scores)
next
  assume "PLAYWRIGHT_AVAILABLE E \<and> (\<exists>s1 s2. launch E s = (Inr (), s1) \<and> goto E url s1 = (Inr (), s2))"
  then obtain s1 s2 where a: "PLAYWRIGHT_AVAILABLE E" "launch E s = (Inr (), s1)"
    "goto E url s1 = (Inr (), s2)" by blast
  show "length (fst (run_playwright_checks E (Some checks) repo url s))
              = length (filter supported_type checks)"
    by (rule run_playwright_checks_count[OF a])
next
  assume "\<exists>sp s1. requests_get E url s = (Inr (200, sp), s1)"
  then obtain sp' s1 where a: "requests_get E url s = (Inr (200, sp'), s1)" by blast
  show "length (fst (http_fallback_checks E url checks repo s)) = length (filter supported_type checks)"
    by (rule http_fallback_count[OF a])
next
  assume a: "supported_type chk"
  show "\<exists>r. fst (run_single_check E chk repo s) = Some r \<and> score_in_unit r"
    by (rule run_single_check_supported[OF a])
  show "\<exists>r. http_run_single_check E s sp chk repo = Some r \<and> score_in_unit r"
    by (rule http_single_supported[OF a])
next
  assume a: "\<not> supported_type chk"
  show "fst (run_single_check E chk repo s) = None"
    by (simp add: run_single_check_unsupported[OF a])
  show "http_run_single_check E s sp chk repo = None"
    by (rule http_single_unsupported[OF a])
next
  assume "get_type chk = ''click_interaction'' \<or> get_type chk = ''responsive_check''"
  then show "\<exists>r. http_run_single_check E s sp chk repo = Some r \<and> rs_score r = Some (1 / 2)"
    by (rule http_single_neutral)
qed

theorem C1_one_result_per_supported_check_witness:
  "PLAYWRIGHT_AVAILABLE blank_engine
   \<and> launch blank_engine () = (Inr (), ())
   \<and> goto blank_engine ''https://a.github.io/calculator/'' () = (Inr (), ())
   \<and> length (fst (run_playwright_checks blank_engine (Some example_checks) example_repo_row
                     ''https://a.github.io/calculator/'' ())) = 2
   \<and> requests_get blank_engine ''https://a.github.io/calculator/'' () = (Inr (200, blank_soup), ())
   \<and> length (fst (http_fallback_checks blank_engine ''https://a.github.io/calculator/''
                     example_checks example_repo_row ())) = 2
   \<and> get_type responsive_check_example = ''responsive_check''
   \<and> (\<exists>r. http_run_single_check blank_engine () blank_soup responsive_check_example
               example_repo_row = Some r \<and> rs_score r = Some (1 / 2))"
proof -
  have a: "PLAYWRIGHT_AVAILABLE blank_engine" "launch blank_engine () = (Inr (), ())"
    "goto blank_engine ''https://a.github.io/calculator/'' () = (Inr (), ())"
    "requests_get blank_engine ''https://a.github.io/calculator/'' () = (Inr (200, blank_soup), ())"
    by (simp_all add: blank_engine_def)
  have t: "get_type responsive_check_example = ''responsive_check''"
    by (simp add: get_type_def responsive_check_example_def)
  have n: "length (filter supported_type example_checks) = 2"
    by (simp add: example_checks_def supported_type_def get_type_def element_check_example_def
        click_sequence_check_def responsive_check_example_def)
  note inst = C1_one_result_per_supported_check
    [of blank_engine "Some example_checks" example_repo_row "''https://a.github.io/calculator/''" "()"
        example_checks responsive_check_example blank_soup]
  from inst a have "length (fst (run_playwright_checks blank_engine (Some example_checks)
      example_repo_row ''https://a.github.io/calculator/'' ())) = length (filter supported_type example_checks)"
    by blast
  moreover from inst a have "length (fst (http_fallback_checks blank_engine
      ''https://a.github.io/calculator/'' example_checks example_repo_row ()))
        = length (filter supported_type example_checks)"
    by blast
  moreover from inst t have "\<exists>r. http_run_single_check blank_engine () blank_soup
      responsive_check_example example_repo_row = Some r \<and> rs_score r = Some (1 / 2)"
    by blast
  ultimately show ?thesis using a t n by simp
qed

text \<open>
  The claim as it stands fails on a check of the catalog: the calculator's
  \<open>click_sequence\<close> check gets no Result from either backend, and in particular no Result
  with score 1/2 from the static one.
\<close>

theorem C1_counterexample:
  "fst (run_playwright_checks blank_engine (Some [click_sequence_check]) example_repo_row
          ''https://a.github.io/calculator/'' ()) = []
   \<and> fst (http_fallback_checks blank_engine ''https://a.github.io/calculator/''
          [click_sequence_check] example_repo_row ()) = []
   \<and> http_run_single_check blank_engine () blank_soup click_sequence_check example_repo_row = None"
  by (simp add: run_playwright_checks_def http_fallback_checks_def blank_engine_def
      run_single_check_def run_single_check_try_def http_run_single_check_def
      http_run_single_check_try_def get_type_def click_sequence_check_def)

lemma run_checks_append:
  "run_checks E (before @ after) repo s =
     (fst (run_checks E before repo s) @ fst (run_checks E after repo (snd (run_checks E before repo s))),
      snd (run_checks E after repo (snd (run_checks E before repo s))))"
  by (induction before arbitrary: s) (auto split: prod.splits option.splits)

lemma raised_result:
  assumes "raised_in_check E chk repo s = Some e"
  shows "\<exists>r s1. run_single_check E chk repo s = (Some r, s1) \<and> rs_score r = Some 0
           \<and> rs_reason r = Some (''Error: '' @ e)"
proof -
  from assms consider "get_type chk = ''element_exists''" | "get_type chk = ''button_exists''"
    | "get_type chk = ''click_interaction''" | "get_type chk = ''responsive_check''"
    by (auto simp: raised_in_check_def Let_def split: if_splits)
  then show ?thesis
  proof cases
    case 1
    with assms show ?thesis
      by (auto simp: raised_in_check_def run_single_check_def run_single_check_try_def
          check_element_exists_def create_result_def split: prod.splits sum.splits)
  next
    case 2
    with assms show ?thesis
      by (auto simp: raised_in_check_def run_single_check_def run_single_check_try_def
          check_button_exists_def create_result_def split: prod.splits sum.splits)
  next
    case 3
    with assms show ?thesis
      by (auto simp: raised_in_check_def run_single_check_def run_single_check_try_def
          check_click_interaction_def create_result_def split: prod.splits sum.splits)
  next
    case 4
    with assms show ?thesis
      by (auto simp: raised_in_check_def run_single_check_def run_single_check_try_def
          check_responsive_def create_result_def split: prod.splits sum.splits)
  qed
qed

text \<open>
  C8.  When the \<open>try\<close> block of a check's method raises an exception with text \<open>e\<close>, in
  the state the checks before it have left, the check still yields a Result: score 0 and
  reason \<open>Error: e\<close>.  The list of Results is then the Results of the checks before it,
  this Result, and the Results of the checks after it, run in order from the state the
  failed check left.
\<close>

theorem C8_check_fault_isolation:
  assumes "raised_in_check E chk repo (snd (run_checks E before repo s)) = Some e"
  shows "\<exists>r s1. run_single_check E chk repo (snd (run_checks E before repo s)) = (Some r, s1)
           \<and> rs_score r = Some 0 \<and> rs_reason r = Some (''Error: '' @ e)
           \<and> run_checks E (before @ chk # after) repo s
               = (fst (run_checks E before repo s) @ r # fst (run_checks E after repo s1),
                  snd (run_checks E after repo s1))"
proof -
  from raised_result[OF assms] obtain r s1 where
    r: "run_single_check E chk repo (snd (run_checks E before repo s)) = (Some r, s1)"
      "rs_score r = Some 0" "rs_reason r = Some (''Error: '' @ e)" by blast
  have "run_checks E (chk # after) repo (snd (run_checks E before repo s))
          = (r # fst (run_checks E after repo s1), snd (run_checks E after repo s1))"
    using r(1) by (simp split: prod.splits)
  with r show ?thesis by (simp add: run_checks_append)
qed

theorem C8_check_fault_isolation_witness:
  "raised_in_check crashing_engine element_check_example example_repo_row
       (snd (run_checks crashing_engine [click_sequence_check] example_repo_row ()))
     = Some ''Target page, context or browser has been closed''
   \<and> (\<exists>r s1. run_single_check crashing_engine element_check_example example_repo_row
                   (snd (run_checks crashing_engine [click_sequence_check] example_repo_row ()))
                 = (Some r, s1)
          \<and> rs_score r = Some 0
          \<and> rs_reason r = Some ''Error: Target page, context or browser has been closed''
          \<and> run_checks crashing_engine
                ([click_sequence_check] @ element_check_example # [responsive_check_example])
                example_repo_row ()
              = (fst (run_checks crashing_engine [click_sequence_check] example_repo_row ())
                   @ r # fst (run_checks crashing_engine [responsive_check_example] example_repo_row s1),
                 snd (run_checks crashing_engine [responsive_check_example] example_repo_row s1)))"
proof -
  have h: "raised_in_check crashing_engine element_check_example example_repo_row
       (snd (run_checks crashing_engine [click_sequence_check] example_repo_row ()))
     = Some ''Target page, context or browser has been closed''"
    by (simp add: raised_in_check_def check_element_exists_try_def crashing_engine_def
        blank_engine_def get_type_def get_selector_def element_check_example_def)
  from C8_check_fault_isolation [OF h, of "[responsive_check_example]"] h
  show ?thesis by simp
qed

end
